theory Spec2Isabelle
  imports Main "HOL-Library.AList" "HOL-Library.Sublist"
begin

section \<open>msgforwarder: the rule dispatcher, rule validation and the transports' emission paths\<close>

text \<open>
  The development follows \<^verbatim>\<open>src/msgforwarder/forwarder.py\<close> and
  \<^verbatim>\<open>src/msgforwarder/transports/*.py\<close>.  Python strings are modelled as
  \<^typ>\<open>string\<close> (the UTF-8 bytes of the text): the only characters the code inspects
  (\<^verbatim>\<open>@ % ( ) s\<close>) are ASCII, and no UTF-8 multi-byte sequence contains an
  ASCII byte, so splitting, formatting and equality behave as on code points.
\<close>

subsection \<open>Configuration values\<close>

text \<open>
  What \<^verbatim>\<open>yaml.safe_load\<close> and \<^verbatim>\<open>json.loads\<close> deliver: None, booleans,
  integers, strings, lists and dicts (a dict as an association list in insertion order,
  its keys distinct).  Floats and the other YAML scalars are left out; on every path
  modelled here they would behave like \<open>JInt\<close>.
\<close>

datatype json =
    JNull
  | JBool bool
  | JInt int
  | JStr string
  | JArr "json list"
  | JObj "(string \<times> json) list"

text \<open>
  The exceptions the modelled code can raise, as values.  \<open>KeyError\<close> carries the
  missing key when it is a string (\<open>KeyErrorObj\<close>: the key was another hashable object),
  \<open>ValueError\<close> carries CPython's message.  \<open>OtherConversion\<close> is not a Python exception: it marks a
  template that leaves the fragment of \<^verbatim>\<open>%\<close>-formatting modelled below, where
  the model gives no result.
\<close>

datatype error =
    KeyError string
  | KeyErrorObj
  | ValueError string
  | TypeError
  | AttributeError
  | ValidationError
  | ReError
  | OtherConversion

subsection \<open>Endpoints: \<^verbatim>\<open>s.split("@", 1)\<close> and the two-name unpacking\<close>

text \<open>
  \<^verbatim>\<open>str.split(sep, 1)\<close> for a one-character separator: at most one split, made
  at the leftmost occurrence; a string without the separator comes back whole.
\<close>

definition split1 :: "char \<Rightarrow> string \<Rightarrow> string list" where
  "split1 sep s =
     (if sep \<in> set s
      then [takeWhile (\<lambda>c. c \<noteq> sep) s, tl (dropWhile (\<lambda>c. c \<noteq> sep) s)]
      else [s])"

text \<open>
  \<^verbatim>\<open>a, b = xs\<close>: exactly two elements, otherwise ValueError.  \<open>split1\<close> returns
  one or two elements, so only the "not enough values" message can occur.
\<close>

definition unpack2 :: "string list \<Rightarrow> error + (string \<times> string)" where
  "unpack2 xs =
     (case xs of
        [a, b] \<Rightarrow> Inr (a, b)
      | _ \<Rightarrow> Inl (ValueError ''not enough values to unpack (expected 2, got 1)''))"

text \<open>
  \<^verbatim>\<open>channel, client_id = rule[...].split("@", 1)\<close>, the statement at lines 170,
  182, 218 and 219 of forwarder.py.
\<close>

definition endpoint :: "string \<Rightarrow> error + (string \<times> string)" where
  "endpoint s = unpack2 (split1 (CHR ''@'') s)"


subsection \<open>\<^verbatim>\<open>template % mapping\<close>\<close>

text \<open>
  CPython's \<^verbatim>\<open>str % dict\<close> on the fragment made of literal text,
  \<^verbatim>\<open>%%\<close> and \<^verbatim>\<open>%(key)s\<close>, with string values:
  \<^item> a key runs to the parenthesis that balances the opening one; the value is looked up
    as soon as the key is read (KeyError when absent);
  \<^item> a \<^verbatim>\<open>%\<close> or a key at the very end is "incomplete format", an unclosed key
    "incomplete format key" (both ValueError);
  \<^item> flags, width, precision, a conversion without a key and conversions other than
    \<^verbatim>\<open>s\<close> are outside the fragment (Python formats some and raises on
    others): \<open>OtherConversion\<close>.
  The scanner reads one character at a time; its state says where in a conversion
  specification it stands.
\<close>

datatype fmt_state =
    Lit
  | Pct
  | Key nat string
  | Conv string

definition emit :: "string \<Rightarrow> error + string \<Rightarrow> error + string" where
  "emit out r = (case r of Inl e \<Rightarrow> Inl e | Inr s \<Rightarrow> Inr (out @ s))"

fun fmt :: "(string \<times> string) list \<Rightarrow> fmt_state \<Rightarrow> string \<Rightarrow> error + string" where
  "fmt d Lit [] = Inr []"
| "fmt d Lit (c # cs) =
     (if c = CHR ''%'' then fmt d Pct cs else emit [c] (fmt d Lit cs))"
| "fmt d Pct [] = Inl (ValueError ''incomplete format'')"
| "fmt d Pct (c # cs) =
     (if c = CHR ''%'' then emit ''%'' (fmt d Lit cs)
      else if c = CHR ''('' then fmt d (Key 0 []) cs
      else Inl OtherConversion)"
| "fmt d (Key n k) [] = Inl (ValueError ''incomplete format key'')"
| "fmt d (Key n k) (c # cs) =
     (if c = CHR '')'' then
        (case n of
           0 \<Rightarrow> (case map_of d k of
                  None \<Rightarrow> Inl (KeyError k)
                | Some v \<Rightarrow> fmt d (Conv v) cs)
         | Suc m \<Rightarrow> fmt d (Key m (k @ [c])) cs)
      else if c = CHR ''('' then fmt d (Key (Suc n) (k @ [c])) cs
      else fmt d (Key n (k @ [c])) cs)"
| "fmt d (Conv v) [] = Inl (ValueError ''incomplete format'')"
| "fmt d (Conv v) (c # cs) =
     (if c = CHR ''s'' then emit v (fmt d Lit cs)
      else Inl OtherConversion)"

definition py_format :: "string \<Rightarrow> (string \<times> string) list \<Rightarrow> error + string" where
  "py_format template d = fmt d Lit template"

subsection \<open>Transports\<close>

text \<open>
  A transport instance, as far as the dispatcher reads it: its class (\<^verbatim>\<open>NAME\<close>),
  \<^verbatim>\<open>_client_id\<close> and \<^verbatim>\<open>_msg_template\<close>.  The instance also keeps a
  reference to the configuration dict it was built from (\<^verbatim>\<open>_client_cfg\<close>), which
  only the connection code reads; it is not part of the record.  The template is whatever
  value the configuration holds under \<^verbatim>\<open>msg_template\<close>: nothing checks that it
  is a string.
\<close>

record transport =
  t_NAME :: string
  t_client_id :: string
  t_msg_template :: json

text \<open>
  A client's configuration dict holds the loaded values and, once the Forwarder is built,
  the transport instance under the key \<^verbatim>\<open>client\<close>.
\<close>

datatype cfg_value = Conf json | Client transport

type_synonym client_cfg = "(string \<times> cfg_value) list"

type_synonym clients = "(string \<times> client_cfg) list"

text \<open>
  \<^verbatim>\<open>_transports\<close> after \<^verbatim>\<open>load_plugins()\<close>: the subclasses of
  BaseTransport by \<^verbatim>\<open>NAME\<close>, each with its \<^verbatim>\<open>MSG_TEMPLATE\<close>
  (IRCClient inherits BaseTransport's).
\<close>

definition MSG_TEMPLATE :: string where
  "MSG_TEMPLATE = ''[From %(from_client)s] %(author)s : %(msg)s''"

definition transports :: "(string \<times> string) list" where
  "transports =
     [(''irc'', MSG_TEMPLATE),
      (''Gitter'', ''*[From %(from_client)s]* **%(author)s** : %(msg)s''),
      (''telegram'', ''_[From %(from_client)s]_ *%(author)s* : %(msg)s'')]"

text \<open>
  The asynchronous task \<^verbatim>\<open>say\<close> hands to the event loop:
  \<^verbatim>\<open>self._say(target, msg)\<close> on the transport of \<^verbatim>\<open>_client_id\<close>.
\<close>

record outbound =
  target_client_id :: string
  target_channel :: string
  rendered_text :: string

text \<open>
  \<^verbatim>\<open>BaseTransport.say\<close> (transport.py, lines 32-42); \<open>placeholders\<close> is the
  dict the template is applied to.  A template that is not a string has no
  \<^verbatim>\<open>%\<close> with a dict: TypeError.
\<close>

definition placeholders ::
  "string \<Rightarrow> string \<Rightarrow> string \<Rightarrow> string \<Rightarrow> string \<Rightarrow> (string \<times> string) list" where
  "placeholders author from_client from_target target msg =
     [(''author'', author),
      (''from_client'', from_client),
      (''from_target'', from_target),
      (''target'', target),
      (''msg'', msg)]"

definition say ::
  "transport \<Rightarrow> string \<Rightarrow> string \<Rightarrow> string \<Rightarrow> string \<Rightarrow> string \<Rightarrow> error + outbound" where
  "say self author from_client from_target target msg =
     (case t_msg_template self of
        JStr template \<Rightarrow>
          (case py_format template
                  (placeholders author from_client from_target target msg) of
             Inl e \<Rightarrow> Inl e
           | Inr m \<Rightarrow>
               Inr \<lparr>target_client_id = t_client_id self,
                    target_channel = target,
                    rendered_text = m\<rparr>)
      | _ \<Rightarrow> Inl TypeError)"


subsection \<open>Rules\<close>

text \<open>
  A rule that passed \<^verbatim>\<open>RULE_SCHEMA\<close> is a dict with the string entries
  \<^verbatim>\<open>from\<close> and \<^verbatim>\<open>send_to\<close> and the optional entries
  \<^verbatim>\<open>nicknames\<close>, \<^verbatim>\<open>ignore_nicknames\<close> (lists of strings) and
  \<^verbatim>\<open>regexp\<close> (a string), and no other key.  The dispatcher reads such rules
  through this record; an absent key is \<open>None\<close>.
\<close>

record rule =
  rule_from :: string
  rule_send_to :: string
  rule_nicknames :: "string list option"
  rule_ignore_nicknames :: "string list option"
  rule_regexp :: "string option"

definition is_string :: "json \<Rightarrow> bool" where
  "is_string j = (case j of JStr _ \<Rightarrow> True | _ \<Rightarrow> False)"

definition is_string_array :: "json \<Rightarrow> bool" where
  "is_string_array j = (case j of JArr xs \<Rightarrow> list_all is_string xs | _ \<Rightarrow> False)"

text \<open>
  \<^verbatim>\<open>jsonschema.validate(rule, RULE_SCHEMA)\<close> (forwarder.py, lines 123-150):
  type object; the five declared properties with their types; no additional property;
  \<^verbatim>\<open>from\<close> and \<^verbatim>\<open>send_to\<close> required.  False stands for the
  ValidationError.
\<close>

definition RULE_SCHEMA_valid :: "json \<Rightarrow> bool" where
  "RULE_SCHEMA_valid rule =
     (case rule of
        JObj kvs \<Rightarrow>
          list_all
            (\<lambda>(k, v).
               if k = ''from'' \<or> k = ''send_to'' \<or> k = ''regexp'' then is_string v
               else if k = ''nicknames'' \<or> k = ''ignore_nicknames'' then is_string_array v
               else False) kvs
          \<and> ''from'' \<in> set (map fst kvs)
          \<and> ''send_to'' \<in> set (map fst kvs)
      | _ \<Rightarrow> False)"

definition str_of :: "json \<Rightarrow> string" where
  "str_of j = (case j of JStr s \<Rightarrow> s | _ \<Rightarrow> [])"

definition str_at :: "(string \<times> json) list \<Rightarrow> string \<Rightarrow> string option" where
  "str_at kvs k = (case map_of kvs k of Some (JStr s) \<Rightarrow> Some s | _ \<Rightarrow> None)"

definition strs_at :: "(string \<times> json) list \<Rightarrow> string \<Rightarrow> string list option" where
  "strs_at kvs k = (case map_of kvs k of Some (JArr xs) \<Rightarrow> Some (map str_of xs) | _ \<Rightarrow> None)"

text \<open>
  The record of a rule dict.  It is meant for dicts that passed the schema; on any other
  value the fields fall back to empty strings and absent options, which no theorem uses.
\<close>

definition rule_view :: "json \<Rightarrow> rule" where
  "rule_view j =
     (case j of
        JObj kvs \<Rightarrow>
          \<lparr>rule_from = (case str_at kvs ''from'' of Some s \<Rightarrow> s | None \<Rightarrow> []),
           rule_send_to = (case str_at kvs ''send_to'' of Some s \<Rightarrow> s | None \<Rightarrow> []),
           rule_nicknames = strs_at kvs ''nicknames'',
           rule_ignore_nicknames = strs_at kvs ''ignore_nicknames'',
           rule_regexp = str_at kvs ''regexp''\<rparr>
      | _ \<Rightarrow>
          \<lparr>rule_from = [], rule_send_to = [], rule_nicknames = None,
           rule_ignore_nicknames = None, rule_regexp = None\<rparr>)"

subsection \<open>The Forwarder\<close>

record forwarder =
  fw_rules :: "rule list"
  fw_clients :: clients

text \<open>
  \<^verbatim>\<open>re.match(pattern, string)\<close> is library code; the dispatcher takes it as a
  parameter \<open>re_match pattern string\<close> with three outcomes: a match object, None, or
  \<^verbatim>\<open>re.error\<close> for a pattern that does not compile.
\<close>

datatype re_result = Matched | NoMatch | PatternError

text \<open>
  \<^verbatim>\<open>self._clients[to_client_id]["client"].say(...)\<close> (lines 183-189): two dict
  lookups, then the method call; a loaded value stored under \<^verbatim>\<open>client\<close> has
  no method \<^verbatim>\<open>say\<close>.
\<close>

definition send ::
  "clients \<Rightarrow> string \<Rightarrow> string \<Rightarrow> string \<Rightarrow> string \<Rightarrow> string \<Rightarrow> string \<Rightarrow> error + outbound" where
  "send cs to_client_id author from_client from_target target msg =
     (case map_of cs to_client_id of
        None \<Rightarrow> Inl (KeyError to_client_id)
      | Some cfg \<Rightarrow>
          (case map_of cfg ''client'' of
             None \<Rightarrow> Inl (KeyError ''client'')
           | Some (Conf _) \<Rightarrow> Inl AttributeError
           | Some (Client t) \<Rightarrow> say t author from_client from_target target msg))"

text \<open>
  The loop of \<^verbatim>\<open>Forwarder.on_message\<close> (lines 169-189).  The state is the list
  of tasks handed to the event loop so far; the result pairs it with the exception that
  ended the loop, if any.  Each \<^verbatim>\<open>continue\<close> is a recursive call on the
  remaining rules with the tasks unchanged.
\<close>

fun on_message_loop ::
  "(string \<Rightarrow> string \<Rightarrow> re_result) \<Rightarrow> clients \<Rightarrow> string \<Rightarrow> string \<Rightarrow> string \<Rightarrow> string \<Rightarrow>
   rule list \<Rightarrow> outbound list \<Rightarrow> outbound list \<times> error option" where
  "on_message_loop re_match cs sender user target text [] tasks = (tasks, None)"
| "on_message_loop re_match cs sender user target text (rule # rest) tasks =
     (case endpoint (rule_from rule) of
        Inl e \<Rightarrow> (tasks, Some e)
      | Inr (from_channel, from_client_id) \<Rightarrow>
          if from_client_id \<noteq> sender \<or> from_channel \<noteq> target then
            on_message_loop re_match cs sender user target text rest tasks
          else if (case rule_nicknames rule of
                     Some ns \<Rightarrow> user \<notin> set ns
                   | None \<Rightarrow> False) then
            on_message_loop re_match cs sender user target text rest tasks
          else if user \<in> set (case rule_ignore_nicknames rule of
                                 Some ns \<Rightarrow> ns
                               | None \<Rightarrow> []) then
            on_message_loop re_match cs sender user target text rest tasks
          else
            (case (case rule_regexp rule of
                     None \<Rightarrow> Matched
                   | Some regexp \<Rightarrow> re_match text regexp) of
               PatternError \<Rightarrow> (tasks, Some ReError)
             | NoMatch \<Rightarrow> on_message_loop re_match cs sender user target text rest tasks
             | Matched \<Rightarrow>
                 (case endpoint (rule_send_to rule) of
                    Inl e \<Rightarrow> (tasks, Some e)
                  | Inr (to_channel, to_client_id) \<Rightarrow>
                      (case send cs to_client_id user from_client_id target to_channel text of
                         Inl e \<Rightarrow> (tasks, Some e)
                       | Inr task \<Rightarrow>
                           on_message_loop re_match cs sender user target text rest
                             (tasks @ [task])))))"

text \<open>
  \<^verbatim>\<open>Forwarder.on_message(sender, user, target, text)\<close> (lines 163-189).  The
  logging call comes first and indents the text with \<^verbatim>\<open>textwrap.indent\<close>,
  which calls \<^verbatim>\<open>text.splitlines\<close>: a text that is not a string (the Gitter
  transport passes \<^verbatim>\<open>message.get("text")\<close>, None when the key is absent) raises
  AttributeError before any rule is looked at.  \<open>sender\<close>, \<open>user\<close> and
  \<open>target\<close> are strings.
\<close>

definition on_message ::
  "(string \<Rightarrow> string \<Rightarrow> re_result) \<Rightarrow> forwarder \<Rightarrow> string \<Rightarrow> string \<Rightarrow> string \<Rightarrow> json \<Rightarrow>
   outbound list \<times> error option" where
  "on_message re_match self sender user target text =
     (case text of
        JStr msg \<Rightarrow>
          on_message_loop re_match (fw_clients self) sender user target msg (fw_rules self) []
      | _ \<Rightarrow> ([], Some AttributeError))"

text \<open>
  \<^verbatim>\<open>_transports[kind]\<close> and \<^verbatim>\<open>kind in _transports\<close>: a list or a dict
  is unhashable (TypeError); any other value that is not one of the three names is
  simply not a key.
\<close>

definition registered :: "cfg_value \<Rightarrow> error + bool" where
  "registered kind =
     (case kind of
        Conf (JStr s) \<Rightarrow> Inr (s \<in> set (map fst transports))
      | Conf (JArr _) \<Rightarrow> Inl TypeError
      | Conf (JObj _) \<Rightarrow> Inl TypeError
      | _ \<Rightarrow> Inr False)"

definition lookup_transport :: "cfg_value \<Rightarrow> error + (string \<times> string)" where
  "lookup_transport kind =
     (case kind of
        Conf (JStr s) \<Rightarrow>
          (case map_of transports s of
             Some template \<Rightarrow> Inr (s, template)
           | None \<Rightarrow> Inl (KeyError s))
      | Conf (JArr _) \<Rightarrow> Inl TypeError
      | Conf (JObj _) \<Rightarrow> Inl TypeError
      | _ \<Rightarrow> Inl KeyErrorObj)"

text \<open>
  \<^verbatim>\<open>t(client_id, client_cfg)\<close>: \<^verbatim>\<open>BaseTransport.__init__\<close> reads
  \<^verbatim>\<open>client_cfg.get("msg_template", self.MSG_TEMPLATE)\<close>;
  \<^verbatim>\<open>GitterClient.__init__\<close> also reads \<^verbatim>\<open>client_cfg["token"]\<close>
  (KeyError when absent); the other two constructors read nothing that can fail.  A
  transport object stored under \<^verbatim>\<open>msg_template\<close> is recorded as \<open>JNull\<close>:
  like every value that is not a string it makes \<open>say\<close> raise TypeError.
\<close>

definition instantiate :: "string \<times> string \<Rightarrow> string \<Rightarrow> client_cfg \<Rightarrow> error + transport" where
  "instantiate t client_id client_cfg =
     (if fst t = ''Gitter'' \<and> map_of client_cfg ''token'' = None then Inl (KeyError ''token'')
      else
        Inr \<lparr>t_NAME = fst t,
             t_client_id = client_id,
             t_msg_template =
               (case map_of client_cfg ''msg_template'' of
                  None \<Rightarrow> JStr (snd t)
                | Some (Conf j) \<Rightarrow> j
                | Some (Client _) \<Rightarrow> JNull)\<rparr>)"

text \<open>
  The loop of \<^verbatim>\<open>Forwarder.__init__\<close> (lines 158-160) over the client ids; the
  state is the clients mapping, whose dicts the loop mutates:
  \<^verbatim>\<open>self._clients[client]["client"] = t(client, clients[client])\<close>.
\<close>

fun init_loop :: "string list \<Rightarrow> clients \<Rightarrow> error + clients" where
  "init_loop [] cs = Inr cs"
| "init_loop (client # rest) cs =
     (case map_of cs client of
        None \<Rightarrow> Inl (KeyError client)
      | Some cfg \<Rightarrow>
          (case map_of cfg ''transport'' of
             None \<Rightarrow> Inl (KeyError ''transport'')
           | Some kind \<Rightarrow>
               (case lookup_transport kind of
                  Inl e \<Rightarrow> Inl e
                | Inr t \<Rightarrow>
                    (case instantiate t client cfg of
                       Inl e \<Rightarrow> Inl e
                     | Inr inst \<Rightarrow>
                         init_loop rest
                           (AList.update client
                              (AList.update ''client'' (Client inst) cfg) cs)))))"

text \<open>
  \<^verbatim>\<open>Forwarder(clients, rules)\<close> (lines 155-161).  \<^verbatim>\<open>self._clients\<close> is
  the caller's mapping itself, so the \<open>fw_clients\<close> of the result is also what the
  caller's \<^verbatim>\<open>clients\<close> holds afterwards.  The subscription to the
  \<^verbatim>\<open>messages\<close> signal has no effect on the data.
\<close>

definition Forwarder_init :: "clients \<Rightarrow> rule list \<Rightarrow> error + forwarder" where
  "Forwarder_init cs rules =
     (case init_loop (map fst cs) cs of
        Inl e \<Rightarrow> Inl e
      | Inr cs' \<Rightarrow> Inr \<lparr>fw_rules = rules, fw_clients = cs'\<rparr>)"

subsection \<open>Validation and startup\<close>

text \<open>
  What validation writes: the \<^verbatim>\<open>logger\<close> calls and the one
  \<^verbatim>\<open>print\<close>, each with the value its message is formatted from:
  \<^item> \<open>Error_transport_missed client_id\<close>:
    "The 'transport' section is missed in \<open>client_id\<close> client.";
  \<^item> \<open>Error_transport_unknown kind\<close>: "The '\<open>kind\<close>' transport is unknown.";
  \<^item> \<open>Exception_credentials client_id\<close>:
    "The credentials of \<open>client_id\<close> user is invalid.";
  \<^item> \<open>Print_rule_invalid\<close>: "The following rule is invalid.";
  \<^item> \<open>Warning_rule_ignored missed_user\<close>: "The user '\<open>missed_user\<close>' is specified
    in the rule, but was not initialized. This rule will be ignored."
\<close>

datatype log =
    Error_transport_missed string
  | Error_transport_unknown cfg_value
  | Exception_credentials string
  | Print_rule_invalid
  | Warning_rule_ignored string

text \<open>
  \<^verbatim>\<open>t.validate(cfg)\<close> is \<^verbatim>\<open>jsonschema.validate(cfg, cls.CONFIG_SCHEMA)\<close>
  (transport.py, lines 21-23).  \<^verbatim>\<open>CONFIG_SCHEMA\<close> is the empty schema of
  BaseTransport: the three transports declare their schemas under another name
  (\<^verbatim>\<open>CLIENT_SCHEMA\<close>), so none overrides it, and the empty schema accepts every
  value.
\<close>

definition CONFIG_SCHEMA_valid :: "client_cfg \<Rightarrow> bool" where
  "CONFIG_SCHEMA_valid cfg = True"

text \<open>
  The first loop of \<^verbatim>\<open>Forwarder.validate\<close> (lines 193-208).  \<open>Inr False\<close>
  is the bare \<^verbatim>\<open>return\<close> (None), \<open>Inr True\<close> the loop running to its end.
\<close>

fun validate_clients :: "clients \<Rightarrow> log list \<times> (error + bool)" where
  "validate_clients [] = ([], Inr True)"
| "validate_clients ((client_id, cfg) # rest) =
     (case map_of cfg ''transport'' of
        None \<Rightarrow> ([Error_transport_missed client_id], Inr False)
      | Some kind \<Rightarrow>
          (case registered kind of
             Inl e \<Rightarrow> ([], Inl e)
           | Inr False \<Rightarrow> ([Error_transport_unknown kind], Inr False)
           | Inr True \<Rightarrow>
               if \<not> CONFIG_SCHEMA_valid cfg then ([Exception_credentials client_id], Inr False)
               else validate_clients rest))"

text \<open>\<^verbatim>\<open>obj[key]\<close> for a string key: only a dict can be indexed by a string.\<close>

definition getitem :: "json \<Rightarrow> string \<Rightarrow> error + json" where
  "getitem obj key =
     (case obj of
        JObj kvs \<Rightarrow> (case map_of kvs key of None \<Rightarrow> Inl (KeyError key) | Some v \<Rightarrow> Inr v)
      | _ \<Rightarrow> Inl TypeError)"

text \<open>
  \<^verbatim>\<open>channel, client_id = rule[key].split("@", 1)\<close> on the rule dict (lines
  218-219); only a string has \<^verbatim>\<open>split\<close>.
\<close>

definition rule_endpoint :: "json \<Rightarrow> string \<Rightarrow> error + (string \<times> string)" where
  "rule_endpoint rule key =
     (case getitem rule key of
        Inl e \<Rightarrow> Inl e
      | Inr (JStr s) \<Rightarrow> endpoint s
      | Inr _ \<Rightarrow> Inl AttributeError)"

text \<open>
  \<^verbatim>\<open>missed_user\<close> (lines 220-222): the first of the two client ids that is not a
  key of \<^verbatim>\<open>clients\<close>, or None.
\<close>

definition missed_user :: "clients \<Rightarrow> string \<Rightarrow> string \<Rightarrow> string option" where
  "missed_user cs from_client_id to_client_id =
     (if from_client_id \<notin> set (map fst cs) then Some from_client_id
      else if to_client_id \<notin> set (map fst cs) then Some to_client_id
      else None)"

text \<open>\<^verbatim>\<open>if missed_user:\<close> is Python's truth test: None and the empty string are false.\<close>

definition truthy :: "string option \<Rightarrow> bool" where
  "truthy v = (case v of None \<Rightarrow> False | Some s \<Rightarrow> s \<noteq> [])"

text \<open>
  The second loop of \<^verbatim>\<open>Forwarder.validate\<close> (lines 210-229).  The state is
  \<^verbatim>\<open>validated_rules\<close> and what has been written so far.
\<close>

fun validate_rules ::
  "clients \<Rightarrow> json list \<Rightarrow> json list \<Rightarrow> log list \<Rightarrow> log list \<times> (error + json list)" where
  "validate_rules cs [] validated_rules logs = (logs, Inr validated_rules)"
| "validate_rules cs (rule # rest) validated_rules logs =
     (if \<not> RULE_SCHEMA_valid rule then (logs @ [Print_rule_invalid], Inl ValidationError)
      else
        (case rule_endpoint rule ''from'' of
           Inl e \<Rightarrow> (logs, Inl e)
         | Inr (from_channel, from_client_id) \<Rightarrow>
             (case rule_endpoint rule ''send_to'' of
                Inl e \<Rightarrow> (logs, Inl e)
              | Inr (to_channel, to_client_id) \<Rightarrow>
                  if truthy (missed_user cs from_client_id to_client_id) then
                    validate_rules cs rest validated_rules
                      (logs @ [Warning_rule_ignored
                                 (the (missed_user cs from_client_id to_client_id))])
                  else validate_rules cs rest (validated_rules @ [rule]) logs)))"

text \<open>
  \<^verbatim>\<open>Forwarder.validate(clients, rules)\<close> (lines 191-230): what was written, and
  either the exception that left the method, or its return value (None, or the pair of the
  clients mapping and the validated rules).
\<close>

definition validate ::
  "clients \<Rightarrow> json list \<Rightarrow> log list \<times> (error + (clients \<times> json list) option)" where
  "validate cs rules =
     (case validate_clients cs of
        (logs, Inl e) \<Rightarrow> (logs, Inl e)
      | (logs, Inr False) \<Rightarrow> (logs, Inr None)
      | (logs, Inr True) \<Rightarrow>
          (case validate_rules cs rules [] logs of
             (logs', Inl e) \<Rightarrow> (logs', Inl e)
           | (logs', Inr validated_rules) \<Rightarrow> (logs', Inr (Some (cs, validated_rules)))))"

text \<open>
  \<^verbatim>\<open>Forwarder.start\<close> (lines 232-235): \<^verbatim>\<open>connect()\<close> on every client's
  transport, in the mapping's order; the result lists the client ids whose transport was
  asked to connect, and the exception that ended the loop, if any.  What
  \<^verbatim>\<open>connect\<close> itself does is outside the model: its reads of the
  configuration (\<^verbatim>\<open>server\<close>, \<^verbatim>\<open>port\<close>, \<^verbatim>\<open>channels\<close>, which can
  raise KeyError) and the network.  The properties below use \<open>run\<close> only where
  validation fails.
\<close>

fun start_loop :: "client_cfg list \<Rightarrow> string list \<Rightarrow> string list \<times> error option" where
  "start_loop [] connected = (connected, None)"
| "start_loop (client # rest) connected =
     (case map_of client ''client'' of
        None \<Rightarrow> (connected, Some (KeyError ''client''))
      | Some (Conf _) \<Rightarrow> (connected, Some AttributeError)
      | Some (Client t) \<Rightarrow> start_loop rest (connected @ [t_client_id t]))"

text \<open>
  How the process stands after startup: it called \<^verbatim>\<open>sys.exit\<close>, it died of an
  uncaught exception (the interpreter then exits with status 1), or it entered
  \<^verbatim>\<open>run_forever\<close>.
\<close>

datatype outcome = Exited nat | Uncaught error | Serving forwarder

definition exit_status :: "outcome \<Rightarrow> nat option" where
  "exit_status out =
     (case out of Exited n \<Rightarrow> Some n | Uncaught _ \<Rightarrow> Some 1 | Serving _ \<Rightarrow> None)"

record startup =
  written :: "log list"
  connect_calls :: "string list"
  result :: outcome

text \<open>
  \<^verbatim>\<open>run()\<close> from line 289 on: the clients and rules sections of the loaded
  configuration are validated, the Forwarder is built and started.  The command line, the
  reading of the file and the checks for the two top-level keys precede this and are not
  modelled.  The Forwarder receives the validated rule dicts, read through
  \<open>rule_view\<close>.
\<close>

definition run :: "clients \<Rightarrow> json list \<Rightarrow> startup" where
  "run cs rules =
     (case validate cs rules of
        (logs, Inl e) \<Rightarrow> \<lparr>written = logs, connect_calls = [], result = Uncaught e\<rparr>
      | (logs, Inr None) \<Rightarrow> \<lparr>written = logs, connect_calls = [], result = Exited 1\<rparr>
      | (logs, Inr (Some (cs', rules'))) \<Rightarrow>
          (case Forwarder_init cs' (map rule_view rules') of
             Inl e \<Rightarrow> \<lparr>written = logs, connect_calls = [], result = Uncaught e\<rparr>
           | Inr fw \<Rightarrow>
               (case start_loop (map snd (fw_clients fw)) [] of
                  (connected, Some e) \<Rightarrow>
                    \<lparr>written = logs, connect_calls = connected, result = Uncaught e\<rparr>
                | (connected, None) \<Rightarrow>
                    \<lparr>written = logs, connect_calls = connected, result = Serving fw\<rparr>)))"

subsection \<open>The transports' emission paths\<close>

text \<open>
  \<^verbatim>\<open>BaseTransport._forward_message\<close> (transport.py, lines 47-49) publishes on the
  \<^verbatim>\<open>messages\<close> signal with the transport's client id as sender.  The handlers
  below return the messages they publish.
\<close>

record published =
  pub_sender :: string
  pub_user :: json
  pub_target :: json
  pub_text :: json

text \<open>
  \<^verbatim>\<open>IRCClient.on_message(message, user, target, text)\<close> (irc.py, lines 83-88);
  \<open>client_nick\<close> is \<^verbatim>\<open>message.client.nick\<close>, \<open>user_nick\<close> is
  \<^verbatim>\<open>user.nick\<close>.
\<close>

definition IRCClient_on_message ::
  "string \<Rightarrow> string \<Rightarrow> string \<Rightarrow> string \<Rightarrow> string \<Rightarrow> published list" where
  "IRCClient_on_message self_client_id client_nick user_nick target text =
     (if user_nick = client_nick then []
      else [\<lparr>pub_sender = self_client_id, pub_user = JStr user_nick,
             pub_target = JStr target, pub_text = JStr text\<rparr>])"

text \<open>\<^verbatim>\<open>obj.get(key, default)\<close>: only a dict has \<^verbatim>\<open>get\<close>.\<close>

definition dict_get :: "json \<Rightarrow> string \<Rightarrow> json \<Rightarrow> error + json" where
  "dict_get obj key dflt =
     (case obj of
        JObj kvs \<Rightarrow> Inr (case map_of kvs key of None \<Rightarrow> dflt | Some v \<Rightarrow> v)
      | _ \<Rightarrow> Inl AttributeError)"

text \<open>
  The body of the loop of \<^verbatim>\<open>GitterClient._listen_messages\<close> for one decoded
  line (gitter.py, lines 96-103).  \<open>self_username\<close> is
  \<^verbatim>\<open>self._user["username"]\<close>, a string.
\<close>

definition GitterClient_on_data ::
  "string \<Rightarrow> string \<Rightarrow> string \<Rightarrow> json \<Rightarrow> error + published list" where
  "GitterClient_on_data self_client_id self_username room_name message =
     (case dict_get message ''fromUser'' (JObj []) of
        Inl e \<Rightarrow> Inl e
      | Inr from_user \<Rightarrow>
          (case dict_get from_user ''username'' (JStr []) of
             Inl e \<Rightarrow> Inl e
           | Inr author \<Rightarrow>
               if author = JStr self_username then Inr []
               else
                 (case dict_get message ''text'' JNull of
                    Inl e \<Rightarrow> Inl e
                  | Inr text \<Rightarrow>
                      Inr [\<lparr>pub_sender = self_client_id, pub_user = author,
                            pub_target = JStr room_name, pub_text = text\<rparr>])))"

text \<open>
  \<^verbatim>\<open>key in obj\<close> for a string key: a key of a dict, an element of a list, a
  substring of a string; the other values are not containers (TypeError).
\<close>

definition str_in :: "string \<Rightarrow> json \<Rightarrow> error + bool" where
  "str_in key obj =
     (case obj of
        JObj kvs \<Rightarrow> Inr (key \<in> set (map fst kvs))
      | JArr xs \<Rightarrow> Inr (JStr key \<in> set xs)
      | JStr s \<Rightarrow> Inr (sublist key s)
      | _ \<Rightarrow> Inl TypeError)"

text \<open>
  The Telegram transport: \<^verbatim>\<open>_client_id\<close>, \<^verbatim>\<open>_user\<close> (the bot's own
  account, stored by \<^verbatim>\<open>_connect\<close>), \<^verbatim>\<open>_channels\<close> and the
  \<^verbatim>\<open>offset\<close> of the polling loop.
\<close>

record telegram =
  tg_client_id :: string
  tg_user :: json
  tg_channels :: "(json \<times> json) list"
  tg_offset :: "int option"

text \<open>\<^verbatim>\<open>update["update_id"] + 1\<close>: defined on integers (and booleans).\<close>

definition plus_one :: "json \<Rightarrow> error + int" where
  "plus_one v =
     (case v of
        JInt n \<Rightarrow> Inr (n + 1)
      | JBool b \<Rightarrow> Inr (if b then 2 else 1)
      | _ \<Rightarrow> Inl TypeError)"

definition hashable :: "json \<Rightarrow> bool" where
  "hashable v = (case v of JArr _ \<Rightarrow> False | JObj _ \<Rightarrow> False | _ \<Rightarrow> True)"

text \<open>
  The body of the loop over the updates in \<^verbatim>\<open>TelegramClient._listen_for_update\<close>
  (telegram.py, lines 81-107) from \<^verbatim>\<open>message = update[key.pop()]\<close> on:
  \<open>message\<close> is the object stored in the update under one of the four message keys, and
  an update with none of them is skipped before.  The result is the transport after the
  update and the messages published.  The author is never compared with
  \<^verbatim>\<open>self._user\<close>.  Channel names are compared as values of \<^typ>\<open>json\<close>, so
  a boolean name and the integer Python takes it to equal count as two keys.
\<close>

definition TelegramClient_on_update ::
  "telegram \<Rightarrow> json \<Rightarrow> json \<Rightarrow> error + telegram \<times> published list" where
  "TelegramClient_on_update self update message =
     (case str_in ''text'' message of
        Inl e \<Rightarrow> Inl e
      | Inr False \<Rightarrow> Inr (self, [])
      | Inr True \<Rightarrow>
     (case getitem message ''chat'' of
        Inl e \<Rightarrow> Inl e
      | Inr chat \<Rightarrow>
     (case getitem chat ''title'' of
        Inl e \<Rightarrow> Inl e
      | Inr channel_name \<Rightarrow>
     (case getitem chat ''id'' of
        Inl e \<Rightarrow> Inl e
      | Inr channel_id \<Rightarrow>
     if \<not> hashable channel_name then Inl TypeError
     else
     (let self1 =
        (if channel_name \<notin> set (map fst (tg_channels self))
         then self\<lparr>tg_channels := tg_channels self @ [(channel_name, channel_id)]\<rparr>
         else self)
      in
     (case dict_get message ''from'' (JObj []) of
        Inl e \<Rightarrow> Inl e
      | Inr from_user \<Rightarrow>
     (case str_in ''username'' from_user of
        Inl e \<Rightarrow> Inl e
      | Inr has_username \<Rightarrow>
     (case (if has_username then Inr True else str_in ''first_name'' from_user) of
        Inl e \<Rightarrow> Inl e
      | Inr False \<Rightarrow> Inr (self1, [])
      | Inr True \<Rightarrow>
     (case getitem from_user (if has_username then ''username'' else ''first_name'') of
        Inl e \<Rightarrow> Inl e
      | Inr author \<Rightarrow>
     (case getitem message ''text'' of
        Inl e \<Rightarrow> Inl e
      | Inr text \<Rightarrow>
     (case getitem update ''update_id'' of
        Inl e \<Rightarrow> Inl e
      | Inr update_id \<Rightarrow>
     (case plus_one update_id of
        Inl e \<Rightarrow> Inl e
      | Inr offset \<Rightarrow>
          Inr (self1\<lparr>tg_offset := Some offset\<rparr>,
               [\<lparr>pub_sender = tg_client_id self, pub_user = author,
                 pub_target = channel_name, pub_text = text\<rparr>])))))))))))))"

subsection \<open>Notions the properties are stated with\<close>





text \<open>
  A rule the dispatcher can process for this message without an exception: both
  endpoints parse, the pattern (if any) compiles when the match is called with the
  message text in the pattern's place, and the send succeeds.
\<close>

definition dispatchable ::
  "(string \<Rightarrow> string \<Rightarrow> re_result) \<Rightarrow> clients \<Rightarrow> string \<Rightarrow> string \<Rightarrow> string \<Rightarrow> string \<Rightarrow>
   rule \<Rightarrow> bool" where
  "dispatchable re_match cs sender user target msg r =
     ((case endpoint (rule_from r) of Inl _ \<Rightarrow> False | Inr _ \<Rightarrow> True)
      \<and> (case rule_regexp r of None \<Rightarrow> True | Some regexp \<Rightarrow> re_match msg regexp \<noteq> PatternError)
      \<and> (case endpoint (rule_send_to r) of
            Inl _ \<Rightarrow> False
          | Inr (to_channel, to_client_id) \<Rightarrow>
              (case send cs to_client_id user sender target to_channel msg of
                 Inl _ \<Rightarrow> False
               | Inr _ \<Rightarrow> True)))"

text \<open>
  A client configuration from which \<^verbatim>\<open>Forwarder.__init__\<close> can build a
  transport: its kind is a registered name, and a Gitter client has a token.
\<close>

definition constructible :: "client_cfg \<Rightarrow> bool" where
  "constructible cfg =
     (case map_of cfg ''transport'' of
        Some (Conf (JStr s)) \<Rightarrow>
          s \<in> set (map fst transports) \<and> (s = ''Gitter'' \<longrightarrow> map_of cfg ''token'' \<noteq> None)
      | _ \<Rightarrow> False)"

text \<open>
  The client ids a rule dict refers to, as validation reads them: the parts after the
  first \<^verbatim>\<open>@\<close> of \<^verbatim>\<open>from\<close> and \<^verbatim>\<open>send_to\<close>.
\<close>

definition client_ids :: "json \<Rightarrow> (string \<times> string) option" where
  "client_ids rule =
     (case rule_endpoint rule ''from'' of
        Inl _ \<Rightarrow> None
      | Inr (from_channel, from_client_id) \<Rightarrow>
          (case rule_endpoint rule ''send_to'' of
             Inl _ \<Rightarrow> None
           | Inr (to_channel, to_client_id) \<Rightarrow> Some (from_client_id, to_client_id)))"

definition both_configured :: "clients \<Rightarrow> json \<Rightarrow> bool" where
  "both_configured cs rule =
     (case client_ids rule of
        None \<Rightarrow> False
      | Some (from_client_id, to_client_id) \<Rightarrow>
          from_client_id \<in> set (map fst cs) \<and> to_client_id \<in> set (map fst cs))"

definition names_clients :: "json \<Rightarrow> bool" where
  "names_clients rule =
     (case client_ids rule of
        None \<Rightarrow> False
      | Some (from_client_id, to_client_id) \<Rightarrow> from_client_id \<noteq> [] \<and> to_client_id \<noteq> [])"

text \<open>
  The client id validation names in its warning about a rule it drops: the source's if it
  is not configured, otherwise the destination's.
\<close>

definition missed_client :: "clients \<Rightarrow> json \<Rightarrow> string" where
  "missed_client cs rule =
     (case client_ids rule of
        None \<Rightarrow> []
      | Some (from_client_id, to_client_id) \<Rightarrow>
          if from_client_id \<notin> set (map fst cs) then from_client_id else to_client_id)"

text \<open>
  A structurally malformed rule: it fails the schema, or one of its two endpoint strings
  does not unpack.
\<close>

definition malformed :: "json \<Rightarrow> bool" where
  "malformed rule = (\<not> RULE_SCHEMA_valid rule \<or> client_ids rule = None)"

text \<open>
  A client configuration without a usable transport kind: the key is absent, or its
  value is not the name of a registered transport.
\<close>

definition unregistered :: "client_cfg \<Rightarrow> bool" where
  "unregistered cfg =
     (case map_of cfg ''transport'' of
        None \<Rightarrow> True
      | Some kind \<Rightarrow> registered kind \<noteq> Inr True)"

definition kind_hashable :: "client_cfg \<Rightarrow> bool" where
  "kind_hashable cfg =
     (case map_of cfg ''transport'' of
        None \<Rightarrow> True
      | Some kind \<Rightarrow> registered kind \<noteq> Inl TypeError)"

text \<open>What validation logs about a client without a usable transport kind.\<close>

definition report :: "string \<Rightarrow> client_cfg \<Rightarrow> log" where
  "report client_id cfg =
     (case map_of cfg ''transport'' of
        None \<Rightarrow> Error_transport_missed client_id
      | Some kind \<Rightarrow> Error_transport_unknown kind)"

subsection \<open>A configuration for the examples\<close>

text \<open>
  Two clients, \<^verbatim>\<open>IRC\<close> of kind irc and \<^verbatim>\<open>Gitter\<close> of kind Gitter, as in
  the module's documentation, and the Forwarder state built from them.
\<close>

definition irc_cfg :: client_cfg where
  "irc_cfg =
     [(''transport'', Conf (JStr ''irc'')),
      (''server'', Conf (JStr ''chat.freenode.net'')),
      (''port'', Conf (JInt 6667)),
      (''nickname'', Conf (JStr ''rallydev-bot''))]"

definition gitter_cfg :: client_cfg where
  "gitter_cfg =
     [(''transport'', Conf (JStr ''Gitter'')),
      (''token'', Conf (JStr ''secret''))]"

definition example_clients :: clients where
  "example_clients = [(''IRC'', irc_cfg), (''Gitter'', gitter_cfg)]"

definition irc_transport :: transport where
  "irc_transport =
     \<lparr>t_NAME = ''irc'', t_client_id = ''IRC'', t_msg_template = JStr MSG_TEMPLATE\<rparr>"

definition gitter_transport :: transport where
  "gitter_transport =
     \<lparr>t_NAME = ''Gitter'', t_client_id = ''Gitter'',
      t_msg_template = JStr ''*[From %(from_client)s]* **%(author)s** : %(msg)s''\<rparr>"

definition built_clients :: clients where
  "built_clients =
     [(''IRC'', irc_cfg @ [(''client'', Client irc_transport)]),
      (''Gitter'', gitter_cfg @ [(''client'', Client gitter_transport)])]"

definition plain_rule :: "string \<Rightarrow> string \<Rightarrow> rule" where
  "plain_rule f t =
     \<lparr>rule_from = f, rule_send_to = t, rule_nicknames = None,
      rule_ignore_nicknames = None, rule_regexp = None\<rparr>"

definition rule_dict :: "string \<Rightarrow> string \<Rightarrow> json" where
  "rule_dict f t = JObj [(''from'', JStr f), (''send_to'', JStr t)]"

text \<open>
  Four rules: from \<^verbatim>\<open>#a@IRC\<close> to \<^verbatim>\<open>#b@Gitter\<close>; from
  \<^verbatim>\<open>#a@IRC\<close> to \<^verbatim>\<open>#c@IRC\<close> ignoring \<^verbatim>\<open>alice\<close>; from
  \<^verbatim>\<open>#a@IRC\<close> to \<^verbatim>\<open>#d@IRC\<close> for \<^verbatim>\<open>alice\<close> only; from
  \<^verbatim>\<open>#x@Gitter\<close> to \<^verbatim>\<open>#a@IRC\<close>.
\<close>

definition example_rules :: "rule list" where
  "example_rules =
     [plain_rule ''#a@IRC'' ''#b@Gitter'',
      (plain_rule ''#a@IRC'' ''#c@IRC'')\<lparr>rule_ignore_nicknames := Some [''alice'']\<rparr>,
      (plain_rule ''#a@IRC'' ''#d@IRC'')\<lparr>rule_nicknames := Some [''alice'']\<rparr>,
      plain_rule ''#x@Gitter'' ''#a@IRC'']"


definition example_forwarder :: forwarder where
  "example_forwarder = \<lparr>fw_rules = example_rules, fw_clients = built_clients\<rparr>"

text \<open>
  A third client whose transport kind is not registered, and a rule dict without
  \<^verbatim>\<open>send_to\<close>.
\<close>

definition slack_cfg :: client_cfg where
  "slack_cfg = [(''transport'', Conf (JStr ''slack'')), (''token'', Conf (JStr ''secret''))]"

definition rule_without_send_to :: json where
  "rule_without_send_to = JObj [(''from'', JStr ''#a@IRC'')]"

text \<open>
  The Gitter client with a template of its own, written with the key the description of
  \<^verbatim>\<open>msg_template\<close> in the Gitter schema names.
\<close>

definition templated_gitter_cfg :: client_cfg where
  "templated_gitter_cfg =
     gitter_cfg @ [(''msg_template'', Conf (JStr ''%(client_id)s: %(msg)s''))]"

text \<open>
  A stand-in for \<^verbatim>\<open>re.match\<close> in the examples, to be used only with patterns
  made of ordinary characters: such a pattern matches exactly the strings it is a
  prefix of.
\<close>

definition literal_match :: "string \<Rightarrow> string \<Rightarrow> re_result" where
  "literal_match pattern s = (if prefix pattern s then Matched else NoMatch)"

section \<open>Properties\<close>

subsection \<open>Splitting and formatting\<close>

lemma takeWhile_sep: "sep \<notin> set ch \<Longrightarrow> takeWhile (\<lambda>c. c \<noteq> sep) (ch @ sep # cid) = ch"
  by (induction ch) auto

lemma dropWhile_sep:
  "sep \<notin> set ch \<Longrightarrow> dropWhile (\<lambda>c. c \<noteq> sep) (ch @ sep # cid) = sep # cid"
  by (induction ch) auto

lemma endpoint_first:
  "CHR ''@'' \<notin> set ch \<Longrightarrow> endpoint (ch @ CHR ''@'' # cid) = Inr (ch, cid)"
  by (simp add: endpoint_def split1_def unpack2_def takeWhile_sep dropWhile_sep)

lemma endpoint_no_at:
  "CHR ''@'' \<notin> set s \<Longrightarrow>
   endpoint s = Inl (ValueError ''not enough values to unpack (expected 2, got 1)'')"
  by (simp add: endpoint_def split1_def unpack2_def)

lemma endpoint_cases:
  "(\<exists>ch cid. s = ch @ CHR ''@'' # cid \<and> CHR ''@'' \<notin> set ch \<and> endpoint s = Inr (ch, cid))
   \<or> (CHR ''@'' \<notin> set s
       \<and> endpoint s = Inl (ValueError ''not enough values to unpack (expected 2, got 1)''))"
proof (cases "CHR ''@'' \<in> set s")
  case True
  then obtain ch cid where "s = ch @ CHR ''@'' # cid" "CHR ''@'' \<notin> set ch"
    using split_list_first[of "CHR ''@''" s] by blast
  then show ?thesis using endpoint_first by blast
next
  case False
  then show ?thesis by (simp add: endpoint_no_at)
qed

lemma emit_emit: "emit a (emit b r) = emit (a @ b) r"
  by (simp add: emit_def split: sum.splits)

lemma fmt_lit: "CHR ''%'' \<notin> set pre \<Longrightarrow> fmt d Lit (pre @ rest) = emit pre (fmt d Lit rest)"
  by (induction pre) (auto simp: emit_def split: sum.splits)

lemma fmt_key:
  "CHR ''('' \<notin> set k \<Longrightarrow> CHR '')'' \<notin> set k \<Longrightarrow>
   fmt d (Key 0 acc) (k @ CHR '')'' # rest) =
     (case map_of d (acc @ k) of
        None \<Rightarrow> Inl (KeyError (acc @ k))
      | Some v \<Rightarrow> fmt d (Conv v) rest)"
  by (induction k arbitrary: acc) (auto split: option.splits)

lemma py_format_key:
  assumes "CHR ''%'' \<notin> set pre" "CHR ''('' \<notin> set k" "CHR '')'' \<notin> set k" "map_of d k = Some v"
  shows "py_format (pre @ ''%('' @ k @ '')s'' @ rest) d = emit (pre @ v) (py_format rest d)"
  using assms by (simp add: py_format_def fmt_lit fmt_key emit_emit)

lemma default_render:
  "py_format MSG_TEMPLATE (placeholders a fc ft t m)
   = Inr (''[From '' @ fc @ ''] '' @ a @ '' : '' @ m)"
  by (simp add: py_format_def MSG_TEMPLATE_def placeholders_def emit_def)




text \<open>
  C7, as the code has it.  \<open>say\<close> renders the transport's template over the five
  placeholders \<^verbatim>\<open>author\<close>, \<^verbatim>\<open>from_client\<close> (the origin client id),
  \<^verbatim>\<open>from_target\<close>, \<^verbatim>\<open>target\<close> and \<^verbatim>\<open>msg\<close>:
  \<^item> with the default template the result is the literal substitution
    \<^verbatim>\<open>[From <from_client>] <author> : <msg>\<close>, sent to the target channel on the
    transport's own client;
  \<^item> a template naming all five renders, in their places, the author, the origin client
    id, the origin channel, the target channel and the text: these five keys, and no
    other, are bound, each to the argument of its name;
  \<^item> in any template, a conversion \<^verbatim>\<open>%(key)s\<close> after literal text is replaced
    by the value the placeholders hold for the key;
  \<^item> the rendered text depends on the template and the five arguments only, not on
    which transport holds the template.
\<close>

theorem say_substitutes_placeholders:
  "say \<lparr>t_NAME = n, t_client_id = c, t_msg_template = JStr MSG_TEMPLATE\<rparr>
      author from_client from_target target msg
   = Inr \<lparr>target_client_id = c, target_channel = target,
          rendered_text = ''[From '' @ from_client @ ''] '' @ author @ '' : '' @ msg\<rparr>
   \<and> say \<lparr>t_NAME = n, t_client_id = c,
           t_msg_template =
             JStr ''%(author)s|%(from_client)s|%(from_target)s|%(target)s|%(msg)s''\<rparr>
      author from_client from_target target msg
   = Inr \<lparr>target_client_id = c, target_channel = target,
          rendered_text =
            author @ ''|'' @ from_client @ ''|'' @ from_target @ ''|'' @ target @ ''|'' @ msg\<rparr>
   \<and> map fst (placeholders author from_client from_target target msg)
       = [''author'', ''from_client'', ''from_target'', ''target'', ''msg'']
   \<and> map_of (placeholders author from_client from_target target msg) ''author'' = Some author
   \<and> map_of (placeholders author from_client from_target target msg) ''from_client''
       = Some from_client
   \<and> map_of (placeholders author from_client from_target target msg) ''from_target''
       = Some from_target
   \<and> map_of (placeholders author from_client from_target target msg) ''target'' = Some target
   \<and> map_of (placeholders author from_client from_target target msg) ''msg'' = Some msg
   \<and> (CHR ''%'' \<notin> set pre \<and> CHR ''('' \<notin> set key \<and> CHR '')'' \<notin> set key
       \<and> map_of (placeholders author from_client from_target target msg) key = Some v \<longrightarrow>
       py_format (pre @ ''%('' @ key @ '')s'' @ rest)
         (placeholders author from_client from_target target msg)
       = emit (pre @ v)
           (py_format rest (placeholders author from_client from_target target msg)))
   \<and> (t_msg_template s1 = t_msg_template s2 \<longrightarrow>
       map_sum id rendered_text (say s1 author from_client from_target target msg)
       = map_sum id rendered_text (say s2 author from_client from_target target msg))"
proof -
  have 1: "say \<lparr>t_NAME = n, t_client_id = c, t_msg_template = JStr MSG_TEMPLATE\<rparr>
          author from_client from_target target msg
        = Inr \<lparr>target_client_id = c, target_channel = target,
               rendered_text = ''[From '' @ from_client @ ''] '' @ author @ '' : '' @ msg\<rparr>"
    by (simp add: say_def default_render)
  have 2: "say \<lparr>t_NAME = n, t_client_id = c,
           t_msg_template =
             JStr ''%(author)s|%(from_client)s|%(from_target)s|%(target)s|%(msg)s''\<rparr>
      author from_client from_target target msg
   = Inr \<lparr>target_client_id = c, target_channel = target,
          rendered_text =
            author @ ''|'' @ from_client @ ''|'' @ from_target @ ''|'' @ target @ ''|'' @ msg\<rparr>"
    by (simp add: say_def py_format_def placeholders_def emit_def)
  have 3: "map fst (placeholders author from_client from_target target msg)
       = [''author'', ''from_client'', ''from_target'', ''target'', ''msg'']"
    by (simp add: placeholders_def)
  have 4: "map_of (placeholders author from_client from_target target msg) ''author'' = Some author
   \<and> map_of (placeholders author from_client from_target target msg) ''from_client''
       = Some from_client
   \<and> map_of (placeholders author from_client from_target target msg) ''from_target''
       = Some from_target
   \<and> map_of (placeholders author from_client from_target target msg) ''target'' = Some target
   \<and> map_of (placeholders author from_client from_target target msg) ''msg'' = Some msg"
    by (simp add: placeholders_def)
  have 5: "t_msg_template s1 = t_msg_template s2 \<longrightarrow>
       map_sum id rendered_text (say s1 author from_client from_target target msg)
       = map_sum id rendered_text (say s2 author from_client from_target target msg)"
    by (simp add: say_def split: json.splits sum.splits)
  show ?thesis
    using 1 2 3 4 5 py_format_key by blast
qed

theorem say_substitutes_placeholders_witness:
  "say \<lparr>t_NAME = ''irc'', t_client_id = ''IRC'', t_msg_template = JStr MSG_TEMPLATE\<rparr>
      ''alice'' ''X'' ''#a'' ''#b'' ''hi''
   = Inr \<lparr>target_client_id = ''IRC'', target_channel = ''#b'',
          rendered_text = ''[From X] alice : hi''\<rparr>
   \<and> say \<lparr>t_NAME = ''irc'', t_client_id = ''IRC'',
           t_msg_template =
             JStr ''%(author)s|%(from_client)s|%(from_target)s|%(target)s|%(msg)s''\<rparr>
      ''alice'' ''X'' ''#a'' ''#b'' ''hi''
   = Inr \<lparr>target_client_id = ''IRC'', target_channel = ''#b'',
          rendered_text = ''alice|X|#a|#b|hi''\<rparr>
   \<and> py_format ''<%(from_client)s> %(msg)s'' (placeholders ''alice'' ''X'' ''#a'' ''#b'' ''hi'')
     = emit ''<X'' (py_format ''> %(msg)s'' (placeholders ''alice'' ''X'' ''#a'' ''#b'' ''hi''))
   \<and> map_sum id rendered_text (say irc_transport ''alice'' ''X'' ''#a'' ''#b'' ''hi'')
     = map_sum id rendered_text
         (say (irc_transport\<lparr>t_client_id := ''Other''\<rparr>) ''alice'' ''X'' ''#a'' ''#b'' ''hi'')"
  using say_substitutes_placeholders [of "''irc''" "''IRC''" "''alice''" "''X''" "''#a''"
      "''#b''" "''hi''" "''<''" "''from_client''" "''X''" "''> %(msg)s''"
      irc_transport "irc_transport\<lparr>t_client_id := ''Other''\<rparr>"]
  by (simp add: placeholders_def)

text \<open>
  C7, the claim as stated, fails twice.  The rendered text is not a function of the origin
  client id, the author, the text and the template alone: the template
  \<^verbatim>\<open>%(target)s\<close> renders the target channel, so two sends that differ only in
  the target give different texts.  And \<^verbatim>\<open>client_id\<close> is not a placeholder:
  the template \<^verbatim>\<open>%(client_id)s: %(msg)s\<close> raises KeyError.
\<close>

theorem say_not_of_client_id_author_text:
  "say \<lparr>t_NAME = ''Gitter'', t_client_id = ''Gitter'', t_msg_template = JStr ''%(target)s''\<rparr>
      ''alice'' ''X'' ''#a'' ''#b'' ''hi''
   = Inr \<lparr>target_client_id = ''Gitter'', target_channel = ''#b'', rendered_text = ''#b''\<rparr>
   \<and> say \<lparr>t_NAME = ''Gitter'', t_client_id = ''Gitter'', t_msg_template = JStr ''%(target)s''\<rparr>
      ''alice'' ''X'' ''#a'' ''#c'' ''hi''
   = Inr \<lparr>target_client_id = ''Gitter'', target_channel = ''#c'', rendered_text = ''#c''\<rparr>
   \<and> say \<lparr>t_NAME = ''Gitter'', t_client_id = ''Gitter'',
           t_msg_template = JStr ''%(client_id)s: %(msg)s''\<rparr>
      ''alice'' ''X'' ''#a'' ''#b'' ''hi''
   = Inl (KeyError ''client_id'')"
  by (simp add: say_def py_format_def placeholders_def emit_def)

subsection \<open>Building the Forwarder\<close>


lemma init_loop_step:
  "init_loop (k # ks) cs = Inr cs' \<Longrightarrow>
   \<exists>cfg kind t inst. map_of cs k = Some cfg \<and> map_of cfg ''transport'' = Some kind
     \<and> lookup_transport kind = Inr t \<and> instantiate t k cfg = Inr inst
     \<and> init_loop ks (AList.update k (AList.update ''client'' (Client inst) cfg) cs) = Inr cs'"
  by (fastforce split: option.splits sum.splits)

lemma init_loop_frame:
  "init_loop ks cs = Inr cs' \<Longrightarrow> distinct ks \<Longrightarrow>
     map fst cs' = map fst cs
     \<and> (\<forall>k. k \<notin> set ks \<longrightarrow> map_of cs' k = map_of cs k)
     \<and> (\<forall>k\<in>set ks. \<exists>cfg kind t inst.
           map_of cs k = Some cfg \<and> map_of cfg ''transport'' = Some kind
           \<and> lookup_transport kind = Inr t \<and> instantiate t k cfg = Inr inst
           \<and> map_of cs' k = Some (AList.update ''client'' (Client inst) cfg))"
proof (induction ks arbitrary: cs)
  case Nil
  then show ?case by simp
next
  case (Cons k ks)
  from init_loop_step[OF Cons.prems(1)] obtain cfg kind t inst where
    cfg: "map_of cs k = Some cfg" and kind: "map_of cfg ''transport'' = Some kind"
    and t: "lookup_transport kind = Inr t" and inst: "instantiate t k cfg = Inr inst"
    and rest: "init_loop ks (AList.update k (AList.update ''client'' (Client inst) cfg) cs) = Inr cs'"
    by blast
  let ?cs1 = "AList.update k (AList.update ''client'' (Client inst) cfg) cs"
  from Cons.prems(2) have dk: "k \<notin> set ks" and dks: "distinct ks" by auto
  note IH = Cons.IH[OF rest dks]
  have kin: "k \<in> set (map fst cs)" using map_of_SomeD[OF cfg] by force
  have keys: "map fst ?cs1 = map fst cs" using kin by (simp add: AList.update_keys)
  have m1: "\<And>j. map_of ?cs1 j = (if j = k then Some (AList.update ''client'' (Client inst) cfg) else map_of cs j)"
    by (simp add: AList.update_conv')
  have a: "map fst cs' = map fst cs" using IH keys by simp
  have b: "\<forall>j. j \<notin> set (k # ks) \<longrightarrow> map_of cs' j = map_of cs j" using IH m1 by simp
  have c: "\<exists>cfg kind t inst.
           map_of cs j = Some cfg \<and> map_of cfg ''transport'' = Some kind
           \<and> lookup_transport kind = Inr t \<and> instantiate t j cfg = Inr inst
           \<and> map_of cs' j = Some (AList.update ''client'' (Client inst) cfg)"
    if j: "j \<in> set (k # ks)" for j
  proof (cases "j = k")
    case True
    then have "map_of cs' j = Some (AList.update ''client'' (Client inst) cfg)"
      using IH dk m1 by simp
    then show ?thesis using True cfg kind t inst by blast
  next
    case False
    then have "j \<in> set ks" using j by simp
    with IH obtain cfgj kindj tj instj where
      x: "map_of ?cs1 j = Some cfgj" "map_of cfgj ''transport'' = Some kindj"
      "lookup_transport kindj = Inr tj" "instantiate tj j cfgj = Inr instj"
      "map_of cs' j = Some (AList.update ''client'' (Client instj) cfgj)"
      by blast
    have "map_of cs j = Some cfgj" using x(1) m1 False by simp
    then show ?thesis using x(2-5) by blast
  qed
  show ?case using a b c by blast
qed


lemma instantiate_fields:
  "instantiate t k cfg = Inr inst \<Longrightarrow> t_client_id inst = k \<and> t_NAME inst = fst t"
  by (auto simp: instantiate_def split: if_splits)

lemma lookup_transport_name:
  "lookup_transport kind = Inr t \<Longrightarrow> kind = Conf (JStr (fst t))"
  by (auto simp: lookup_transport_def split: cfg_value.splits json.splits option.splits)

lemma constructible_update:
  "constructible (AList.update ''client'' v cfg) = constructible cfg"
  by (simp add: constructible_def AList.update_conv'
      split: option.splits cfg_value.splits json.splits)

lemma constructible_builds:
  assumes "constructible cfg"
  shows "\<exists>kind t inst. map_of cfg ''transport'' = Some kind
      \<and> lookup_transport kind = Inr t \<and> instantiate t k cfg = Inr inst"
proof -
  from assms obtain s where s: "map_of cfg ''transport'' = Some (Conf (JStr s))"
    "s \<in> set (map fst transports)" "s = ''Gitter'' \<longrightarrow> map_of cfg ''token'' \<noteq> None"
    by (auto simp: constructible_def split: option.splits cfg_value.splits json.splits)
  from s(2) obtain tmpl where t: "map_of transports s = Some tmpl"
    using map_of_eq_None_iff[of transports s] by auto
  then have "lookup_transport (Conf (JStr s)) = Inr (s, tmpl)"
    by (simp add: lookup_transport_def)
  moreover have "\<exists>inst. instantiate (s, tmpl) k cfg = Inr inst"
    using s(3) by (simp add: instantiate_def)
  ultimately show ?thesis using s(1) by blast
qed

lemma init_loop_total:
  "set ks \<subseteq> set (map fst cs) \<Longrightarrow> (\<forall>k cfg. map_of cs k = Some cfg \<longrightarrow> constructible cfg) \<Longrightarrow>
   \<exists>cs'. init_loop ks cs = Inr cs'"
proof (induction ks arbitrary: cs)
  case Nil
  then show ?case by simp
next
  case (Cons k ks)
  from Cons.prems(1) have "k \<in> set (map fst cs)" by simp
  then obtain cfg where cfg: "map_of cs k = Some cfg"
    using map_of_eq_None_iff[of cs k] by auto
  then have c: "constructible cfg" using Cons.prems(2) by blast
  from constructible_builds[OF c, of k] obtain kind t inst where
    b: "map_of cfg ''transport'' = Some kind" "lookup_transport kind = Inr t"
       "instantiate t k cfg = Inr inst"
    by blast
  let ?cs1 = "AList.update k (AList.update ''client'' (Client inst) cfg) cs"
  have "set ks \<subseteq> set (map fst ?cs1)" using Cons.prems(1) by (auto simp: AList.update_keys)
  moreover have "\<forall>j cfg'. map_of ?cs1 j = Some cfg' \<longrightarrow> constructible cfg'"
    using Cons.prems(2) c by (simp add: AList.update_conv' constructible_update)
  ultimately obtain cs' where "init_loop ks ?cs1 = Inr cs'" using Cons.IH by blast
  then show ?case using cfg b by simp
qed

lemma Forwarder_init_example: 
  "Forwarder_init example_clients rs = Inr \<lparr>fw_rules = rs, fw_clients = built_clients\<rparr>"
  by (simp add: Forwarder_init_def example_clients_def irc_cfg_def gitter_cfg_def built_clients_def
      lookup_transport_def transports_def instantiate_def irc_transport_def gitter_transport_def MSG_TEMPLATE_def)

text \<open>
  C10.  Constructing a Forwarder mutates the clients mapping it is given (the Forwarder's
  \<open>fw_clients\<close> is that mapping after the call): whenever the construction completes,
  the mapping has the same client ids in the same order, and for every configured client
  id its configuration dict holds under the key \<^verbatim>\<open>client\<close> a transport instance
  created for that client id, of the kind the configuration names, while every other key
  of the dict holds what it held before.  The construction completes when every client
  names a registered kind (and a Gitter client has a token).  Client ids are the keys of a
  dict, hence distinct.
\<close>

theorem Forwarder_init_inserts_client:
  assumes "distinct (map fst cs)"
  shows "(Forwarder_init cs rules = Inr fw \<longrightarrow>
           fw_rules fw = rules
           \<and> map fst (fw_clients fw) = map fst cs
           \<and> (\<forall>(client, cfg)\<in>set cs. \<exists>cfg' inst.
                 map_of (fw_clients fw) client = Some cfg'
                 \<and> map_of cfg' ''client'' = Some (Client inst)
                 \<and> t_client_id inst = client
                 \<and> map_of cfg ''transport'' = Some (Conf (JStr (t_NAME inst)))
                 \<and> (\<forall>k. k \<noteq> ''client'' \<longrightarrow> map_of cfg' k = map_of cfg k)))
       \<and> ((\<forall>(client, cfg)\<in>set cs. constructible cfg) \<longrightarrow>
           (\<exists>fw'. Forwarder_init cs rules = Inr fw'))"
proof (intro conjI impI)
  assume init: "Forwarder_init cs rules = Inr fw"
  then obtain cs' where loop: "init_loop (map fst cs) cs = Inr cs'"
    and fw: "fw = \<lparr>fw_rules = rules, fw_clients = cs'\<rparr>"
    by (auto simp: Forwarder_init_def split: sum.splits)
  note F = init_loop_frame[OF loop assms]
  show "fw_rules fw = rules" using fw by simp
  show "map fst (fw_clients fw) = map fst cs" using F fw by simp
  show "\<forall>(client, cfg)\<in>set cs. \<exists>cfg' inst.
                 map_of (fw_clients fw) client = Some cfg'
                 \<and> map_of cfg' ''client'' = Some (Client inst)
                 \<and> t_client_id inst = client
                 \<and> map_of cfg ''transport'' = Some (Conf (JStr (t_NAME inst)))
                 \<and> (\<forall>k. k \<noteq> ''client'' \<longrightarrow> map_of cfg' k = map_of cfg k)"
  proof (clarify)
    fix client cfg assume mem: "(client, cfg) \<in> set cs"
    then have cin: "client \<in> set (map fst cs)" by force
    have mc: "map_of cs client = Some cfg" using mem assms by simp
    from F cin obtain cfg0 kind t inst where
      x: "map_of cs client = Some cfg0" "map_of cfg0 ''transport'' = Some kind"
         "lookup_transport kind = Inr t" "instantiate t client cfg0 = Inr inst"
         "map_of cs' client = Some (AList.update ''client'' (Client inst) cfg0)"
      by blast
    have e: "cfg0 = cfg" using mc x(1) by simp
    let ?cfg' = "AList.update ''client'' (Client inst) cfg"
    have 1: "map_of (fw_clients fw) client = Some ?cfg'" using x(5) fw e by simp
    have 2: "map_of ?cfg' ''client'' = Some (Client inst)" by (simp add: AList.update_conv')
    have 3: "t_client_id inst = client" using instantiate_fields x(4) by blast
    have 4: "map_of cfg ''transport'' = Some (Conf (JStr (t_NAME inst)))"
    proof -
      have "kind = Conf (JStr (fst t))" using lookup_transport_name x(3) by blast
      moreover have "t_NAME inst = fst t" using instantiate_fields x(4) by blast
      ultimately show ?thesis using x(2) e by simp
    qed
    have 5: "\<forall>k. k \<noteq> ''client'' \<longrightarrow> map_of ?cfg' k = map_of cfg k"
      by (simp add: AList.update_conv')
    show "\<exists>cfg' inst.
                 map_of (fw_clients fw) client = Some cfg'
                 \<and> map_of cfg' ''client'' = Some (Client inst)
                 \<and> t_client_id inst = client
                 \<and> map_of cfg ''transport'' = Some (Conf (JStr (t_NAME inst)))
                 \<and> (\<forall>k. k \<noteq> ''client'' \<longrightarrow> map_of cfg' k = map_of cfg k)"
      using 1 2 3 4 5 by blast
  qed
next
  assume c: "\<forall>(client, cfg)\<in>set cs. constructible cfg"
  have "\<forall>k cfg. map_of cs k = Some cfg \<longrightarrow> constructible cfg"
    using c by (auto dest: map_of_SomeD)
  then obtain cs' where "init_loop (map fst cs) cs = Inr cs'"
    using init_loop_total[of "map fst cs" cs] by auto
  then show "\<exists>fw'. Forwarder_init cs rules = Inr fw'" by (simp add: Forwarder_init_def)
qed

theorem Forwarder_init_inserts_client_witness:
  "distinct (map fst example_clients)
   \<and> Forwarder_init example_clients [] = Inr \<lparr>fw_rules = [], fw_clients = built_clients\<rparr>
   \<and> constructible irc_cfg \<and> constructible gitter_cfg
   \<and> map fst built_clients = map fst example_clients
   \<and> (\<exists>cfg' inst. map_of built_clients ''IRC'' = Some cfg'
         \<and> map_of cfg' ''client'' = Some (Client inst) \<and> t_client_id inst = ''IRC''
         \<and> map_of cfg' ''server'' = map_of irc_cfg ''server'')"
proof -
  let ?fw = "\<lparr>fw_rules = [], fw_clients = built_clients\<rparr>"
  have d: "distinct (map fst example_clients)" by (simp add: example_clients_def)
  have b: "Forwarder_init example_clients [] = Inr ?fw"
    by (rule Forwarder_init_example)
  have c: "constructible irc_cfg \<and> constructible gitter_cfg"
    by (simp add: constructible_def irc_cfg_def gitter_cfg_def transports_def)
  have m: "(''IRC'', irc_cfg) \<in> set example_clients" by (simp add: example_clients_def)
  from Forwarder_init_inserts_client[OF d, of "[]" ?fw] b
  have T: "map fst (fw_clients ?fw) = map fst example_clients
           \<and> (\<forall>(client, cfg)\<in>set example_clients. \<exists>cfg' inst.
                 map_of (fw_clients ?fw) client = Some cfg'
                 \<and> map_of cfg' ''client'' = Some (Client inst)
                 \<and> t_client_id inst = client
                 \<and> map_of cfg ''transport'' = Some (Conf (JStr (t_NAME inst)))
                 \<and> (\<forall>k. k \<noteq> ''client'' \<longrightarrow> map_of cfg' k = map_of cfg k))"
    by blast
  then have k: "map fst built_clients = map fst example_clients" by simp
  from T m obtain cfg' inst where
    x: "map_of (fw_clients ?fw) ''IRC'' = Some cfg'" "map_of cfg' ''client'' = Some (Client inst)"
       "t_client_id inst = ''IRC''" "\<forall>k. k \<noteq> ''client'' \<longrightarrow> map_of cfg' k = map_of irc_cfg k"
    by blast
  have "map_of cfg' ''server'' = map_of irc_cfg ''server''" using x(4) by simp
  then have e: "\<exists>cfg' inst. map_of built_clients ''IRC'' = Some cfg'
         \<and> map_of cfg' ''client'' = Some (Client inst) \<and> t_client_id inst = ''IRC''
         \<and> map_of cfg' ''server'' = map_of irc_cfg ''server''"
    using x(1,2,3) by auto
  show ?thesis using d b c k e by blast
qed

subsection \<open>The pattern filter and the transports' own messages\<close>

text \<open>
  C2.  The claim says a rule with a pattern forwards a message exactly when the rule's
  regexp matches the message text.  The code calls
  \<^verbatim>\<open>re.match(text, rule["regexp"])\<close>: the message text stands in the pattern's
  place and the rule's regexp in the subject's.  For the rule
  \<^verbatim>\<open>{from: "#a@IRC", send_to: "#b@Gitter", regexp: "hello"}\<close> and the message
  \<^verbatim>\<open>hello world\<close> from \<^verbatim>\<open>alice\<close> on \<^verbatim>\<open>#a@IRC\<close>, whatever
  \<^verbatim>\<open>re.match\<close> does, the send depends on matching the pattern
  \<^verbatim>\<open>hello world\<close> against the string \<^verbatim>\<open>hello\<close> (no match, so nothing is
  sent), not on matching \<^verbatim>\<open>hello\<close> against \<^verbatim>\<open>hello world\<close>.
\<close>

theorem on_message_matches_text_against_regexp:
  "on_message re_match
      \<lparr>fw_rules = [(plain_rule ''#a@IRC'' ''#b@Gitter'')\<lparr>rule_regexp := Some ''hello''\<rparr>],
       fw_clients = built_clients\<rparr> ''IRC'' ''alice'' ''#a'' (JStr ''hello world'')
   = (case re_match ''hello world'' ''hello'' of
        Matched \<Rightarrow> ([\<lparr>target_client_id = ''Gitter'', target_channel = ''#b'',
                      rendered_text = ''*[From IRC]* **alice** : hello world''\<rparr>], None)
      | NoMatch \<Rightarrow> ([], None)
      | PatternError \<Rightarrow> ([], Some ReError))"
  by (simp add: on_message_def plain_rule_def endpoint_def split1_def unpack2_def send_def
      built_clients_def irc_cfg_def gitter_cfg_def gitter_transport_def say_def py_format_def
      placeholders_def emit_def split: re_result.splits)

theorem on_message_matches_text_against_regexp_witness:
  "on_message literal_match
      \<lparr>fw_rules = [(plain_rule ''#a@IRC'' ''#b@Gitter'')\<lparr>rule_regexp := Some ''hello''\<rparr>],
       fw_clients = built_clients\<rparr> ''IRC'' ''alice'' ''#a'' (JStr ''hello world'')
   = ([], None)
   \<and> literal_match ''hello'' ''hello world'' = Matched"
  using on_message_matches_text_against_regexp [of literal_match]
  by (simp add: literal_match_def)

text \<open>
  C5.  The IRC and the Gitter transport drop a message whose author is the transport's own
  identity; the Telegram transport does not compare the author with anything.
\<close>

lemma IRCClient_drops_own_message: "IRCClient_on_message c nick nick target text = []"
  by (simp add: IRCClient_on_message_def)

lemma GitterClient_drops_own_message:
  "dict_get message ''fromUser'' (JObj []) = Inr from_user \<Longrightarrow>
   dict_get from_user ''username'' (JStr []) = Inr (JStr me) \<Longrightarrow>
   GitterClient_on_data c me room message = Inr []"
  by (simp add: GitterClient_on_data_def)

text \<open>
  C5, the failing case: a Telegram transport connected as \<^verbatim>\<open>relay_bot\<close> receives
  an update whose message was written by \<^verbatim>\<open>relay_bot\<close> itself, and publishes it.
\<close>

theorem TelegramClient_publishes_own_message:
  "TelegramClient_on_update
     \<lparr>tg_client_id = ''Telegram'',
      tg_user = JObj [(''id'', JInt 7), (''username'', JStr ''relay_bot'')],
      tg_channels = [], tg_offset = None\<rparr>
     (JObj [(''update_id'', JInt 41),
            (''message'',
             JObj [(''text'', JStr ''hi''),
                   (''chat'', JObj [(''id'', JInt 5), (''title'', JStr ''room'')]),
                   (''from'', JObj [(''id'', JInt 7), (''username'', JStr ''relay_bot'')])])])
     (JObj [(''text'', JStr ''hi''),
            (''chat'', JObj [(''id'', JInt 5), (''title'', JStr ''room'')]),
            (''from'', JObj [(''id'', JInt 7), (''username'', JStr ''relay_bot'')])])
   = Inr (\<lparr>tg_client_id = ''Telegram'',
           tg_user = JObj [(''id'', JInt 7), (''username'', JStr ''relay_bot'')],
           tg_channels = [(JStr ''room'', JInt 5)], tg_offset = Some 42\<rparr>,
          [\<lparr>pub_sender = ''Telegram'', pub_user = JStr ''relay_bot'',
            pub_target = JStr ''room'', pub_text = JStr ''hi''\<rparr>])"
  by (simp add: TelegramClient_on_update_def str_in_def getitem_def hashable_def dict_get_def
      plus_one_def)

subsection \<open>Dispatch\<close>





lemma on_message_loop_no_raise:
  assumes "\<forall>r\<in>set rs. dispatchable re_match cs sender user target msg r"
  shows "snd (on_message_loop re_match cs sender user target msg rs tasks) = None"
  using assms
proof (induction rs arbitrary: tasks)
  case Nil
  then show ?case by simp
next
  case (Cons r rs)
  then have d: "dispatchable re_match cs sender user target msg r"
    and IH: "\<And>tasks. snd (on_message_loop re_match cs sender user target msg rs tasks) = None"
    by auto
  obtain fc fi where f: "endpoint (rule_from r) = Inr (fc, fi)"
    using d by (cases "endpoint (rule_from r)") (auto simp: dispatchable_def)
  obtain tc ti where t: "endpoint (rule_send_to r) = Inr (tc, ti)"
    using d by (cases "endpoint (rule_send_to r)") (auto simp: dispatchable_def)
  obtain task where s: "send cs ti user sender target tc msg = Inr task"
    using d t by (cases "send cs ti user sender target tc msg") (auto simp: dispatchable_def)
  have re: "\<And>regexp. rule_regexp r = Some regexp \<Longrightarrow> re_match msg regexp \<noteq> PatternError"
    using d by (auto simp: dispatchable_def)
  show ?case
    using f t s re IH
    by (auto split: option.splits re_result.splits)
qed

lemma on_message_loop_foreign:
  assumes "\<forall>r\<in>set rs. \<exists>p. endpoint (rule_from r) = Inr p \<and> p \<noteq> (target, sender)"
  shows "on_message_loop re_match cs sender user target msg rs tasks = (tasks, None)"
  using assms by (induction rs) auto








lemma example_regexp_rule_dispatchable:
  "\<forall>r\<in>set (fw_rules (example_forwarder\<lparr>fw_rules :=
        [(plain_rule ''#a@IRC'' ''#b@Gitter'')\<lparr>rule_regexp := Some ''hello''\<rparr>]\<rparr>)).
     dispatchable literal_match built_clients ''IRC'' ''alice'' ''#a'' ''hello world'' r"
  by (simp add: example_forwarder_def plain_rule_def dispatchable_def
      endpoint_def split1_def unpack2_def send_def built_clients_def irc_cfg_def gitter_cfg_def
      gitter_transport_def irc_transport_def MSG_TEMPLATE_def say_def py_format_def
      placeholders_def emit_def literal_match_def)

text \<open>
  C8, as the code has it.  \<open>on_message\<close> has no exception handling, so it does raise;
  what holds is this.  When the text is a string and every rule of the Forwarder is
  \<open>dispatchable\<close> for the message (both endpoints unpack, the match call does not
  raise for a rule with a pattern, the destination client is in the registry with a
  transport, and its template renders), \<open>on_message\<close> returns without an exception.
  When no rule's source endpoint is the message's origin, the message is non-matching: no
  send and no exception, whatever its sender, author and target are.  When the text is
  not a string, AttributeError is raised before any rule is looked at.
\<close>

theorem on_message_returns_when_rules_dispatchable:
  "((\<forall>r\<in>set (fw_rules self).
        dispatchable re_match (fw_clients self) sender user target msg r) \<longrightarrow>
      snd (on_message re_match self sender user target (JStr msg)) = None)
   \<and> ((\<forall>r\<in>set (fw_rules self).
          \<exists>p. endpoint (rule_from r) = Inr p \<and> p \<noteq> (target, sender)) \<longrightarrow>
      on_message re_match self sender user target (JStr msg) = ([], None))
   \<and> ((\<forall>s. text \<noteq> JStr s) \<longrightarrow>
      on_message re_match self sender user target text = ([], Some AttributeError))"
proof (intro conjI impI)
  assume "\<forall>r\<in>set (fw_rules self).
        dispatchable re_match (fw_clients self) sender user target msg r"
  then show "snd (on_message re_match self sender user target (JStr msg)) = None"
    by (simp add: on_message_def on_message_loop_no_raise)
next
  assume "\<forall>r\<in>set (fw_rules self).
          \<exists>p. endpoint (rule_from r) = Inr p \<and> p \<noteq> (target, sender)"
  then show "on_message re_match self sender user target (JStr msg) = ([], None)"
    by (simp add: on_message_def on_message_loop_foreign)
next
  assume "\<forall>s. text \<noteq> JStr s"
  then show "on_message re_match self sender user target text = ([], Some AttributeError)"
    by (cases "text") (simp_all add: on_message_def)
qed

theorem on_message_returns_when_rules_dispatchable_witness:
  "snd (on_message literal_match
         (example_forwarder\<lparr>fw_rules :=
            [(plain_rule ''#a@IRC'' ''#b@Gitter'')\<lparr>rule_regexp := Some ''hello''\<rparr>]\<rparr>)
         ''IRC'' ''alice'' ''#a'' (JStr ''hello world'')) = None
   \<and> on_message literal_match example_forwarder ''Gitter'' ''alice'' ''#nowhere'' (JStr ''hi'')
     = ([], None)
   \<and> on_message literal_match example_forwarder ''IRC'' ''alice'' ''#a'' (JInt 5)
     = ([], Some AttributeError)"
proof -
  let ?fw = "example_forwarder\<lparr>fw_rules :=
            [(plain_rule ''#a@IRC'' ''#b@Gitter'')\<lparr>rule_regexp := Some ''hello''\<rparr>]\<rparr>"
  have h1: "\<forall>r\<in>set (fw_rules ?fw).
     dispatchable literal_match (fw_clients ?fw) ''IRC'' ''alice'' ''#a'' ''hello world'' r"
    using example_regexp_rule_dispatchable by (simp add: example_forwarder_def)
  have h2: "\<forall>r\<in>set (fw_rules example_forwarder).
          \<exists>p. endpoint (rule_from r) = Inr p \<and> p \<noteq> (''#nowhere'', ''Gitter'')"
    by (simp add: example_forwarder_def example_rules_def plain_rule_def
        endpoint_def split1_def unpack2_def)
  have h3: "\<forall>s. JInt 5 \<noteq> JStr s" by simp
  have 1: "snd (on_message literal_match ?fw ''IRC'' ''alice'' ''#a'' (JStr ''hello world'')) = None"
    using on_message_returns_when_rules_dispatchable
      [of ?fw literal_match "''IRC''" "''alice''" "''#a''" "''hello world''" "JNull"] h1
    by blast
  have 2: "on_message literal_match example_forwarder ''Gitter'' ''alice'' ''#nowhere'' (JStr ''hi'')
     = ([], None)"
    using on_message_returns_when_rules_dispatchable
      [of example_forwarder literal_match "''Gitter''" "''alice''" "''#nowhere''" "''hi''" "JNull"] h2
    by blast
  have 3: "on_message literal_match example_forwarder ''IRC'' ''alice'' ''#a'' (JInt 5)
     = ([], Some AttributeError)"
    using on_message_returns_when_rules_dispatchable
      [of example_forwarder literal_match "''IRC''" "''alice''" "''#a''" "''hi''" "JInt 5"] h3
    by blast
  show ?thesis using 1 2 3 by blast
qed

text \<open>
  C8, the claim as stated, fails.  A Gitter event without a \<^verbatim>\<open>text\<close> key is
  published with the text None, and dispatching it raises AttributeError.  And with a
  configuration that validation accepts, in which the Gitter client's template uses a
  placeholder that \<open>say\<close> does not supply, a well-formed message from
  \<^verbatim>\<open>#a@IRC\<close> raises KeyError at the first of two matching rules; the second
  is never reached.
\<close>

theorem on_message_raises:
  "GitterClient_on_data ''Gitter'' ''rallydev-bot'' ''xRally/Lobby''
     (JObj [(''fromUser'', JObj [(''username'', JStr ''alice'')])])
   = Inr [\<lparr>pub_sender = ''Gitter'', pub_user = JStr ''alice'',
           pub_target = JStr ''xRally/Lobby'', pub_text = JNull\<rparr>]
   \<and> on_message literal_match example_forwarder ''Gitter'' ''alice'' ''xRally/Lobby'' JNull
     = ([], Some AttributeError)
   \<and> validate [(''IRC'', irc_cfg), (''Gitter'', templated_gitter_cfg)]
        [rule_dict ''#a@IRC'' ''#b@Gitter'', rule_dict ''#a@IRC'' ''#c@IRC'']
     = ([], Inr (Some ([(''IRC'', irc_cfg), (''Gitter'', templated_gitter_cfg)],
                       [rule_dict ''#a@IRC'' ''#b@Gitter'', rule_dict ''#a@IRC'' ''#c@IRC''])))
   \<and> map_sum id (\<lambda>fw. on_message literal_match fw ''IRC'' ''alice'' ''#a'' (JStr ''hi''))
       (Forwarder_init [(''IRC'', irc_cfg), (''Gitter'', templated_gitter_cfg)]
          (map rule_view [rule_dict ''#a@IRC'' ''#b@Gitter'', rule_dict ''#a@IRC'' ''#c@IRC'']))
     = Inr ([], Some (KeyError ''client_id''))"
  by (simp add: GitterClient_on_data_def dict_get_def on_message_def plain_rule_def
      endpoint_def split1_def unpack2_def send_def irc_cfg_def gitter_cfg_def
      templated_gitter_cfg_def rule_view_def str_at_def strs_at_def
      Forwarder_init_def lookup_transport_def transports_def instantiate_def
      gitter_transport_def irc_transport_def MSG_TEMPLATE_def say_def py_format_def
      placeholders_def emit_def validate_def registered_def CONFIG_SCHEMA_valid_def
      rule_dict_def RULE_SCHEMA_valid_def is_string_def rule_endpoint_def getitem_def
      missed_user_def truthy_def)

subsection \<open>Validation\<close>

lemma validate_clients_ok:
  "\<forall>(c, cfg)\<in>set cs. \<not> unregistered cfg \<Longrightarrow> validate_clients cs = ([], Inr True)"
proof (induction cs)
  case Nil
  then show ?case by simp
next
  case (Cons p cs)
  obtain c cfg where p: "p = (c, cfg)" by (cases p)
  from Cons.prems p have "\<not> unregistered cfg" by simp
  then obtain kind where "map_of cfg ''transport'' = Some kind" "registered kind = Inr True"
    by (auto simp: unregistered_def split: option.splits)
  then show ?case using Cons p by (simp add: CONFIG_SCHEMA_valid_def)
qed

lemma validate_clients_bad:
  assumes "(c, cfg) \<in> set cs" "unregistered cfg"
  shows "\<exists>c' cfg'. (c', cfg') \<in> set cs \<and> unregistered cfg'
           \<and> (validate_clients cs = ([report c' cfg'], Inr False)
               \<or> validate_clients cs = ([], Inl TypeError) \<and> \<not> kind_hashable cfg')"
  using assms
proof (induction cs)
  case Nil
  then show ?case by simp
next
  case (Cons p cs)
  obtain c0 cfg0 where p: "p = (c0, cfg0)" by (cases p)
  show ?case
  proof (cases "unregistered cfg0")
    case True
    have "validate_clients (p # cs) = ([report c0 cfg0], Inr False)
          \<or> validate_clients (p # cs) = ([], Inl TypeError) \<and> \<not> kind_hashable cfg0"
    proof (cases "map_of cfg0 ''transport''")
      case None
      then show ?thesis using p by (simp add: report_def)
    next
      case (Some kind)
      show ?thesis
      proof (cases "registered kind")
        case (Inl e)
        then have "e = TypeError"
          by (auto simp: registered_def split: cfg_value.splits json.splits)
        then show ?thesis using p Some Inl by (simp add: kind_hashable_def)
      next
        case (Inr b)
        then have "\<not> b" using True Some by (simp add: unregistered_def)
        then show ?thesis using p Some Inr by (simp add: report_def)
      qed
    qed
    moreover have "(c0, cfg0) \<in> set (p # cs)" using p by simp
    ultimately show ?thesis using True by blast
  next
    case False
    then obtain kind where k: "map_of cfg0 ''transport'' = Some kind" "registered kind = Inr True"
      by (auto simp: unregistered_def split: option.splits)
    have step: "validate_clients (p # cs) = validate_clients cs"
      using p k by (simp add: CONFIG_SCHEMA_valid_def)
    from Cons.prems False p have "(c, cfg) \<in> set cs" by auto
    from Cons.IH[OF this Cons.prems(2)] obtain c' cfg' where
      x: "(c', cfg') \<in> set cs" "unregistered cfg'"
      "validate_clients cs = ([report c' cfg'], Inr False)
               \<or> validate_clients cs = ([], Inl TypeError) \<and> \<not> kind_hashable cfg'"
      by blast
    have "(c', cfg') \<in> set (p # cs)" using x(1) by simp
    then show ?thesis unfolding step using x(2,3) by blast
  qed
qed

lemma schema_valid_strings:
  assumes "RULE_SCHEMA_valid rule"
  shows "\<exists>f t. getitem rule ''from'' = Inr (JStr f) \<and> getitem rule ''send_to'' = Inr (JStr t)"
proof -
  from assms obtain kvs where r: "rule = JObj kvs"
    by (cases rule) (auto simp: RULE_SCHEMA_valid_def)
  let ?P = "\<lambda>(k, v).
               if k = ''from'' \<or> k = ''send_to'' \<or> k = ''regexp'' then is_string v
               else if k = ''nicknames'' \<or> k = ''ignore_nicknames'' then is_string_array v
               else False"
  from assms r have all: "\<forall>kv\<in>set kvs. ?P kv" and f: "''from'' \<in> set (map fst kvs)"
    and t: "''send_to'' \<in> set (map fst kvs)"
    by (auto simp: RULE_SCHEMA_valid_def list_all_iff)
  have str: "\<exists>s. map_of kvs k = Some (JStr s)"
    if k: "k \<in> set (map fst kvs)" "k = ''from'' \<or> k = ''send_to''" for k
  proof -
    from k(1) obtain v where v: "map_of kvs k = Some v"
      using map_of_eq_None_iff[of kvs k] by auto
    then have "(k, v) \<in> set kvs" by (rule map_of_SomeD)
    with all have "?P (k, v)" by blast
    then have "is_string v" using k(2) by auto
    then show ?thesis using v by (cases v) (auto simp: is_string_def)
  qed
  from str[OF f] str[OF t] show ?thesis using r by (auto simp: getitem_def)
qed

lemma rule_endpoint_cases:
  assumes "RULE_SCHEMA_valid rule" "key = ''from'' \<or> key = ''send_to''"
  shows "(\<exists>p. rule_endpoint rule key = Inr p)
       \<or> rule_endpoint rule key = Inl (ValueError ''not enough values to unpack (expected 2, got 1)'')"
proof -
  from schema_valid_strings[OF assms(1)] assms(2) obtain s where "getitem rule key = Inr (JStr s)"
    by auto
  then have "rule_endpoint rule key = endpoint s" by (simp add: rule_endpoint_def)
  then show ?thesis using endpoint_cases[of s] by auto
qed

lemma validate_rules_keep_or_drop:
  assumes "RULE_SCHEMA_valid rule" "names_clients rule"
  shows "validate_rules cs (rule # rest) validated_rules logs =
     (if both_configured cs rule then validate_rules cs rest (validated_rules @ [rule]) logs
      else validate_rules cs rest validated_rules
             (logs @ [Warning_rule_ignored (missed_client cs rule)]))"
proof -
  from assms(2) obtain f t where ids: "client_ids rule = Some (f, t)" and ne: "f \<noteq> []" "t \<noteq> []"
    by (auto simp: names_clients_def split: option.splits)
  then obtain fc tc where e: "rule_endpoint rule ''from'' = Inr (fc, f)"
    "rule_endpoint rule ''send_to'' = Inr (tc, t)"
    by (auto simp: client_ids_def split: sum.splits prod.splits)
  show ?thesis
    using assms(1) ids ne e
    by (simp add: both_configured_def missed_client_def missed_user_def truthy_def)
qed

lemma validate_rules_ok:
  assumes "\<forall>r\<in>set rules. RULE_SCHEMA_valid r \<and> names_clients r"
  shows "validate_rules cs rules validated_rules logs =
    (logs @ map (\<lambda>r. Warning_rule_ignored (missed_client cs r))
              (filter (\<lambda>r. \<not> both_configured cs r) rules),
     Inr (validated_rules @ filter (both_configured cs) rules))"
  using assms
proof (induction rules arbitrary: validated_rules logs)
  case Nil
  then show ?case by simp
next
  case (Cons r rules)
  then have r: "RULE_SCHEMA_valid r" "names_clients r"
    and rest: "\<forall>r\<in>set rules. RULE_SCHEMA_valid r \<and> names_clients r" by auto
  show ?case
    unfolding validate_rules_keep_or_drop[OF r] using Cons.IH[OF rest] by simp
qed

lemma validate_rules_malformed:
  assumes "\<exists>r\<in>set rules. malformed r" "Print_rule_invalid \<notin> set logs"
  shows "\<exists>logs'.
      validate_rules cs rules validated_rules logs = (logs', Inl ValidationError)
        \<and> Print_rule_invalid \<in> set logs'
      \<or> validate_rules cs rules validated_rules logs
          = (logs', Inl (ValueError ''not enough values to unpack (expected 2, got 1)''))
        \<and> Print_rule_invalid \<notin> set logs'"
  using assms
proof (induction rules arbitrary: validated_rules logs)
  case Nil
  then show ?case by simp
next
  case (Cons r rules)
  let ?VE = "ValueError ''not enough values to unpack (expected 2, got 1)''"
  show ?case
  proof (cases "RULE_SCHEMA_valid r")
    case False
    then have "validate_rules cs (r # rules) validated_rules logs
                 = (logs @ [Print_rule_invalid], Inl ValidationError)" by simp
    then show ?thesis by auto
  next
    case True
    from rule_endpoint_cases[OF True, of "''from''"]
    consider (bad) "rule_endpoint r ''from'' = Inl ?VE"
      | (good) p where "rule_endpoint r ''from'' = Inr p" by auto
    then show ?thesis
    proof cases
      case bad
      then have "validate_rules cs (r # rules) validated_rules logs = (logs, Inl ?VE)"
        using True by simp
      then show ?thesis using Cons.prems(2) by auto
    next
      case good
      from rule_endpoint_cases[OF True, of "''send_to''"]
      consider (bad2) "rule_endpoint r ''send_to'' = Inl ?VE"
        | (good2) q where "rule_endpoint r ''send_to'' = Inr q" by auto
      then show ?thesis
      proof cases
        case bad2
        then have "validate_rules cs (r # rules) validated_rules logs = (logs, Inl ?VE)"
          using True good by (cases p) simp
        then show ?thesis using Cons.prems(2) by auto
      next
        case good2
        obtain fc f tc t where pq: "p = (fc, f)" "q = (tc, t)" by (cases p, cases q) auto
        have "\<not> malformed r" using True good good2 pq by (simp add: malformed_def client_ids_def)
        then have rest: "\<exists>r\<in>set rules. malformed r" using Cons.prems(1) by auto
        show ?thesis
        proof (cases "truthy (missed_user cs f t)")
          case T: True
          have step: "validate_rules cs (r # rules) validated_rules logs
                = validate_rules cs rules validated_rules
                    (logs @ [Warning_rule_ignored (the (missed_user cs f t))])"
            using True good good2 pq T by simp
          have "Print_rule_invalid \<notin> set (logs @ [Warning_rule_ignored (the (missed_user cs f t))])"
            using Cons.prems(2) by simp
          from Cons.IH[OF rest this] show ?thesis unfolding step .
        next
          case F: False
          have step: "validate_rules cs (r # rules) validated_rules logs
                = validate_rules cs rules (validated_rules @ [r]) logs"
            using True good good2 pq F by simp
          from Cons.IH[OF rest Cons.prems(2)] show ?thesis unfolding step .
        qed
      qed
    qed
  qed
qed

lemma run_aborts:
  assumes "snd (validate cs rules) = Inr None \<or> (\<exists>e. snd (validate cs rules) = Inl e)"
  shows "connect_calls (run cs rules) = [] \<and> exit_status (result (run cs rules)) = Some 1"
  using assms
  by (cases "validate cs rules") (auto simp: run_def exit_status_def)

lemmas validation_defs = validate_def example_clients_def irc_cfg_def gitter_cfg_def slack_cfg_def
  registered_def transports_def CONFIG_SCHEMA_valid_def rule_dict_def RULE_SCHEMA_valid_def
  is_string_def rule_endpoint_def getitem_def missed_user_def truthy_def endpoint_def
  split1_def unpack2_def rule_without_send_to_def

text \<open>
  C4, as the code has it.  When every client names a registered transport kind, and every
  rule passes the schema, has an \<^verbatim>\<open>@\<close> in \<^verbatim>\<open>from\<close> and in
  \<^verbatim>\<open>send_to\<close> and names non-empty client ids, \<open>validate\<close> returns the
  clients mapping with exactly the rules whose two client ids are both keys of the mapping,
  in their original order; it writes one warning per dropped rule, naming the missing
  client id, and nothing else, and does not abort.
\<close>

theorem validate_keeps_rules_of_configured_clients:
  assumes "\<forall>(c, cfg)\<in>set cs. \<not> unregistered cfg"
    and "\<forall>r\<in>set rules. RULE_SCHEMA_valid r \<and> names_clients r"
  shows "validate cs rules =
    (map (\<lambda>r. Warning_rule_ignored (missed_client cs r))
       (filter (\<lambda>r. \<not> both_configured cs r) rules),
     Inr (Some (cs, filter (both_configured cs) rules)))"
  using validate_clients_ok[OF assms(1)] validate_rules_ok[OF assms(2), of cs "[]" "[]"]
  by (simp add: validate_def)

theorem validate_keeps_rules_of_configured_clients_witness:
  "validate example_clients
     [rule_dict ''#a@IRC'' ''#b@Gitter'', rule_dict ''#a@IRC'' ''#c@Slack'',
      rule_dict ''#x@Gitter'' ''#a@IRC'']
   = ([Warning_rule_ignored ''Slack''],
      Inr (Some (example_clients,
                 [rule_dict ''#a@IRC'' ''#b@Gitter'', rule_dict ''#x@Gitter'' ''#a@IRC''])))"
proof -
  let ?rules = "[rule_dict ''#a@IRC'' ''#b@Gitter'', rule_dict ''#a@IRC'' ''#c@Slack'',
      rule_dict ''#x@Gitter'' ''#a@IRC'']"
  have h1: "\<forall>(c, cfg)\<in>set example_clients. \<not> unregistered cfg"
    by (simp add: unregistered_def validation_defs)
  have h2: "\<forall>r\<in>set ?rules. RULE_SCHEMA_valid r \<and> names_clients r"
    by (simp add: names_clients_def client_ids_def validation_defs)
  show ?thesis
    using validate_keeps_rules_of_configured_clients [OF h1 h2]
    by (simp add: both_configured_def missed_client_def client_ids_def rule_dict_def
        rule_endpoint_def getitem_def endpoint_def split1_def unpack2_def example_clients_def)
qed

text \<open>
  C4, the claim as stated, fails in three ways: for a clients mapping with an unregistered
  kind \<open>validate\<close> returns None; for a schema-valid rule whose \<^verbatim>\<open>from\<close> has
  no \<^verbatim>\<open>@\<close> it raises ValueError; and the rule from \<^verbatim>\<open>#a@\<close>, whose
  client id is the empty string and not a client, is kept, because the test
  \<^verbatim>\<open>if missed_user:\<close> takes the empty string for "nothing missed".
\<close>

theorem validate_not_always_the_configured_rules:
  "validate [(''Slack'', slack_cfg)] []
     = ([Error_transport_unknown (Conf (JStr ''slack''))], Inr None)
   \<and> validate example_clients [rule_dict ''#a'' ''#b@Gitter'']
     = ([], Inl (ValueError ''not enough values to unpack (expected 2, got 1)''))
   \<and> validate example_clients [rule_dict ''#a@'' ''#b@Gitter'']
     = ([], Inr (Some (example_clients, [rule_dict ''#a@'' ''#b@Gitter''])))"
  by (simp add: validation_defs)

text \<open>
  C6.  If some client configuration has no \<^verbatim>\<open>transport\<close> key, or a value there
  that is not a registered kind, then startup aborts: no transport is asked to connect and
  the process ends with status 1.  When the transport values are hashable (strings,
  numbers, booleans, None), \<open>validate\<close> logs one error, about such a client (its
  id when the key is missing, the kind when it is unknown), returns None, and \<open>run\<close>
  calls \<^verbatim>\<open>sys.exit(1)\<close>.  (A list or dict as transport value makes the
  membership test raise TypeError; the process then dies of the exception, still with
  status 1 and no connection.)
\<close>

theorem unregistered_transport_aborts_startup:
  assumes "(client_id, cfg) \<in> set cs" and "unregistered cfg"
  shows "connect_calls (run cs rules) = []
    \<and> exit_status (result (run cs rules)) = Some 1
    \<and> ((\<forall>(c, f)\<in>set cs. kind_hashable f) \<longrightarrow>
        (\<exists>c f. (c, f) \<in> set cs \<and> unregistered f
           \<and> validate cs rules = ([report c f], Inr None)
           \<and> run cs rules = \<lparr>written = [report c f], connect_calls = [], result = Exited 1\<rparr>))"
proof -
  from validate_clients_bad[OF assms] obtain c' cfg' where
    x: "(c', cfg') \<in> set cs" "unregistered cfg'"
       "validate_clients cs = ([report c' cfg'], Inr False)
               \<or> validate_clients cs = ([], Inl TypeError) \<and> \<not> kind_hashable cfg'"
    by blast
  have v: "validate cs rules = ([report c' cfg'], Inr None)
           \<or> validate cs rules = ([], Inl TypeError) \<and> \<not> kind_hashable cfg'"
    using x(3) by (auto simp: validate_def)
  then have a: "connect_calls (run cs rules) = [] \<and> exit_status (result (run cs rules)) = Some 1"
    using run_aborts[of cs rules] by auto
  have b: "\<exists>c f. (c, f) \<in> set cs \<and> unregistered f
           \<and> validate cs rules = ([report c f], Inr None)
           \<and> run cs rules = \<lparr>written = [report c f], connect_calls = [], result = Exited 1\<rparr>"
    if h: "\<forall>(c, f)\<in>set cs. kind_hashable f"
  proof -
    from h x(1) have "kind_hashable cfg'" by auto
    with v have v': "validate cs rules = ([report c' cfg'], Inr None)" by auto
    then have "run cs rules = \<lparr>written = [report c' cfg'], connect_calls = [], result = Exited 1\<rparr>"
      by (simp add: run_def)
    with v' x(1,2) show ?thesis by blast
  qed
  show ?thesis using a b by blast
qed

theorem unregistered_transport_aborts_startup_witness:
  "(''Slack'', slack_cfg) \<in> set [(''IRC'', irc_cfg), (''Slack'', slack_cfg), (''Gitter'', gitter_cfg)]
   \<and> unregistered slack_cfg
   \<and> connect_calls (run [(''IRC'', irc_cfg), (''Slack'', slack_cfg), (''Gitter'', gitter_cfg)]
                       [rule_dict ''#a@IRC'' ''#b@Gitter'']) = []
   \<and> exit_status (result (run [(''IRC'', irc_cfg), (''Slack'', slack_cfg), (''Gitter'', gitter_cfg)]
                       [rule_dict ''#a@IRC'' ''#b@Gitter''])) = Some 1
   \<and> validate [(''IRC'', irc_cfg), (''Slack'', slack_cfg), (''Gitter'', gitter_cfg)]
        [rule_dict ''#a@IRC'' ''#b@Gitter'']
     = ([Error_transport_unknown (Conf (JStr ''slack''))], Inr None)"
proof -
  let ?cs = "[(''IRC'', irc_cfg), (''Slack'', slack_cfg), (''Gitter'', gitter_cfg)]"
  have h1: "(''Slack'', slack_cfg) \<in> set ?cs" by simp
  have h2: "unregistered slack_cfg" by (simp add: unregistered_def validation_defs)
  have h3: "\<forall>(c, f)\<in>set ?cs. kind_hashable f" by (simp add: kind_hashable_def validation_defs)
  note T = unregistered_transport_aborts_startup [OF h1 h2, of "[rule_dict ''#a@IRC'' ''#b@Gitter'']"]
  from T h3 obtain c f where
    "validate ?cs [rule_dict ''#a@IRC'' ''#b@Gitter''] = ([report c f], Inr None)" by blast
  moreover have "validate ?cs [rule_dict ''#a@IRC'' ''#b@Gitter'']
     = ([Error_transport_unknown (Conf (JStr ''slack''))], Inr None)"
    by (simp add: validation_defs)
  ultimately show ?thesis using T h1 h2 by blast
qed

text \<open>
  C9, as the code has it.  If some rule is malformed (it fails the schema, or its
  \<^verbatim>\<open>from\<close> or \<^verbatim>\<open>send_to\<close> has no \<^verbatim>\<open>@\<close>), startup aborts
  before any transport is asked to connect, and the process ends with status 1.  With
  valid clients the abort is an exception leaving \<open>validate\<close>: either
  ValidationError, announced by printing "The following rule is invalid." (a rule failed
  the schema), or a bare ValueError with nothing printed about the rule (an endpoint did
  not unpack).
\<close>

theorem malformed_rule_aborts_startup:
  assumes "r \<in> set rules" and "malformed r"
  shows "connect_calls (run cs rules) = []
    \<and> exit_status (result (run cs rules)) = Some 1
    \<and> ((\<forall>(c, f)\<in>set cs. \<not> unregistered f) \<longrightarrow>
        (\<exists>logs.
           validate cs rules = (logs, Inl ValidationError) \<and> Print_rule_invalid \<in> set logs
           \<or> validate cs rules
                = (logs, Inl (ValueError ''not enough values to unpack (expected 2, got 1)''))
              \<and> Print_rule_invalid \<notin> set logs))"
proof -
  have m: "\<exists>r\<in>set rules. malformed r" using assms by blast
  have b: "\<exists>logs.
           validate cs rules = (logs, Inl ValidationError) \<and> Print_rule_invalid \<in> set logs
           \<or> validate cs rules
                = (logs, Inl (ValueError ''not enough values to unpack (expected 2, got 1)''))
              \<and> Print_rule_invalid \<notin> set logs"
    if h: "\<forall>(c, f)\<in>set cs. \<not> unregistered f"
  proof -
    have vc: "validate_clients cs = ([], Inr True)" using validate_clients_ok[OF h] .
    from validate_rules_malformed[OF m, of "[]" cs "[]"] obtain logs' where
      "validate_rules cs rules [] [] = (logs', Inl ValidationError)
        \<and> Print_rule_invalid \<in> set logs'
      \<or> validate_rules cs rules [] []
          = (logs', Inl (ValueError ''not enough values to unpack (expected 2, got 1)''))
        \<and> Print_rule_invalid \<notin> set logs'" by auto
    then show ?thesis using vc by (auto simp: validate_def)
  qed
  have a: "connect_calls (run cs rules) = [] \<and> exit_status (result (run cs rules)) = Some 1"
  proof (cases "\<forall>(c, f)\<in>set cs. \<not> unregistered f")
    case True
    from b[OF True] have "\<exists>e. snd (validate cs rules) = Inl e" by auto
    then show ?thesis using run_aborts by blast
  next
    case False
    then obtain c f where "(c, f) \<in> set cs" "unregistered f" by auto
    from validate_clients_bad[OF this] have
      "snd (validate_clients cs) = Inr False \<or> snd (validate_clients cs) = Inl TypeError"
      by auto
    then have "snd (validate cs rules) = Inr None \<or> (\<exists>e. snd (validate cs rules) = Inl e)"
      by (cases "validate_clients cs") (auto simp: validate_def)
    then show ?thesis using run_aborts by blast
  qed
  show ?thesis using a b by blast
qed

theorem malformed_rule_aborts_startup_witness:
  "malformed rule_without_send_to
   \<and> connect_calls (run example_clients
        [rule_dict ''#a@IRC'' ''#b@Gitter'', rule_without_send_to]) = []
   \<and> exit_status (result (run example_clients
        [rule_dict ''#a@IRC'' ''#b@Gitter'', rule_without_send_to])) = Some 1
   \<and> validate example_clients [rule_dict ''#a@IRC'' ''#b@Gitter'', rule_without_send_to]
     = ([Print_rule_invalid], Inl ValidationError)"
proof -
  let ?rules = "[rule_dict ''#a@IRC'' ''#b@Gitter'', rule_without_send_to]"
  have h1: "rule_without_send_to \<in> set ?rules" by simp
  have h2: "malformed rule_without_send_to" by (simp add: malformed_def validation_defs)
  have h3: "\<forall>(c, f)\<in>set example_clients. \<not> unregistered f"
    by (simp add: unregistered_def validation_defs)
  note T = malformed_rule_aborts_startup [OF h1 h2, of example_clients]
  from T h3 obtain logs where
    "validate example_clients ?rules = (logs, Inl ValidationError) \<and> Print_rule_invalid \<in> set logs
     \<or> validate example_clients ?rules
          = (logs, Inl (ValueError ''not enough values to unpack (expected 2, got 1)''))
        \<and> Print_rule_invalid \<notin> set logs" by blast
  moreover have "validate example_clients ?rules = ([Print_rule_invalid], Inl ValidationError)"
    by (simp add: validation_defs)
  ultimately show ?thesis using T h2 by blast
qed

text \<open>
  C9, the claim as stated, fails on a rule whose \<^verbatim>\<open>from\<close> is
  \<^verbatim>\<open>#a\<close>: startup aborts, but nothing is written, and the exception's message
  ("not enough values to unpack") does not name the rule.
\<close>

theorem unparseable_rule_aborts_without_diagnostic:
  "validate example_clients [rule_dict ''#a'' ''#b@Gitter'']
     = ([], Inl (ValueError ''not enough values to unpack (expected 2, got 1)''))
   \<and> run example_clients [rule_dict ''#a'' ''#b@Gitter'']
     = \<lparr>written = [], connect_calls = [],
        result = Uncaught (ValueError ''not enough values to unpack (expected 2, got 1)'')\<rparr>"
  by (simp add: run_def validation_defs)

end
